theory Spec2Isabelle
  imports Complex_Main "HOL-Library.Log_Nat"
begin

section \<open>SOFC heating-ramp advisor: the model of \<^verbatim>\<open>app.py\<close>\<close>

text \<open>
  The script keeps three pieces of session state (the sample history, the log of
  boundary-condition changes and the last boundary configuration seen) and one function
  with decision logic, \<^verbatim>\<open>calculate_next_step\<close>.

  Numbers. The flows and temperatures are Python floats, that is binary64 numbers. The
  control step is given in two readings of its arithmetic. \<open>calculate_next_step\<close> takes
  every operation exactly, over the reals; it carries the properties of order and sign,
  which do not depend on the digits returned. \<open>calculate_next_step_f64\<close> rounds every
  operation to binary64 as the interpreter does; it carries every property that fixes
  digits of the result, and the two readings do return different digits at some inputs
  (lemma \<open>exact_reading_tie\<close> below). Both readings take finite inputs only: overflow to
  infinity, the subnormal range and NaN are outside the model.
  The three limits read with \<^verbatim>\<open>st.number_input(..., value=100)\<close> (an integer default and
  no step) are Python ints and are modelled as \<open>int\<close>; the slider value
  \<^verbatim>\<open>target_slope\<close> is a float. A \<^verbatim>\<open>datetime\<close> is modelled by its count of microseconds,
  so that \<^verbatim>\<open>(a - b).total_seconds() / 60.0\<close> is the difference divided by \<open>10\<^sup>6\<close> and by 60.
\<close>

subsection \<open>Rounding\<close>

text \<open>
  \<^verbatim>\<open>round(x, n)\<close> on a float rounds the exact value of \<open>x\<close> to the nearest multiple of
  \<open>10\<^sup>-\<^sup>n\<close> and resolves a tie towards the even last digit.
\<close>

definition round_half_even :: "real \<Rightarrow> int" where
  "round_half_even y =
     (let f = \<lfloor>y\<rfloor>; d = y - of_int f
      in if d < 1 / 2 then f
         else if 1 / 2 < d then f + 1
         else if even f then f else f + 1)"

definition py_round :: "real \<Rightarrow> nat \<Rightarrow> real" where
  "py_round x n = of_int (round_half_even (x * 10 ^ n)) / 10 ^ n"

subsection \<open>Binary64 numbers\<close>

text \<open>
  A binary64 number is an integer significand of at most 53 bits times a power of two.
  \<open>binade x\<close> is the exponent \<open>e\<close> with \<open>2\<^sup>e \<le> \<bar>x\<bar> < 2\<^sup>e\<^sup>+\<^sup>1\<close>, read off the bit length of the
  integer part of \<open>\<bar>x\<bar>\<close>, or of its reciprocal below 1; on that binade the binary64 numbers
  form the grid of step \<open>2\<^sup>e\<^sup>-\<^sup>5\<^sup>2\<close>, whose exponent is \<open>ulp_exp x\<close>. \<open>fl x\<close> is the binary64
  number nearest to the real \<open>x\<close>, a tie going to the even significand, with the exponent
  range taken unbounded. Every arithmetic operation of the interpreter on floats returns
  \<open>fl\<close> of the exact result, and a decimal literal denotes \<open>fl\<close> of its value.
\<close>

definition binade :: "real \<Rightarrow> int" where
  "binade x = (if 1 \<le> \<bar>x\<bar> then bitlen \<lfloor>\<bar>x\<bar>\<rfloor> - 1 else - bitlen (\<lceil>1 / \<bar>x\<bar>\<rceil> - 1))"

definition ulp_exp :: "real \<Rightarrow> int" where
  "ulp_exp x = binade x - 52"

definition fl :: "real \<Rightarrow> real" where
  "fl x = (if x = 0 then 0
           else of_int (round_half_even (x / 2 powi ulp_exp x)) * 2 powi ulp_exp x)"

text \<open>
  \<^verbatim>\<open>round(x, n)\<close> on a float: the exact value of \<open>x\<close> rounded to \<open>n\<close> decimals as above,
  then converted to the nearest binary64 number.
\<close>

definition float_round :: "real \<Rightarrow> nat \<Rightarrow> real" where
  "float_round x n = fl (py_round x n)"

subsection \<open>Samples, limits and the advice returned\<close>

text \<open>One history entry: the dict built at line 109, with its keys as fields.\<close>

record entry =
  time :: int
  h2 :: real
  air :: real
  t2 :: real
  tc3 :: real
  tc1 :: real

text \<open>
  The four sidebar widgets (lines 24 to 27). \<^verbatim>\<open>calculate_next_step\<close> reads them as
  globals; here they are an explicit argument.
\<close>

record limits =
  target_slope :: real
  max_stack_dt :: int
  max_ab_dt :: int
  min_air_flow :: int

text \<open>
  The four status messages of \<^verbatim>\<open>calculate_next_step\<close>, in the order of their appearance in
  the source: the waiting message of line 58, the stable message of line 75, the
  afterburner alarm of line 81 and the stack alarm of line 86.
\<close>

datatype status = Waiting | Stable | AfterburnerProtection | StackProtection

text \<open>The returned 4-tuple, named as the caller unpacks it (line 117).\<close>

record advice =
  next_h2 :: real
  next_air :: real
  msg :: status
  a_slope :: real

subsection \<open>The control step\<close>

definition elapsed_minutes :: "entry \<Rightarrow> entry \<Rightarrow> real" where
  "elapsed_minutes curr_e last_e = real_of_int (time curr_e - time last_e) / 1000000 / 60"

definition calculate_next_step :: "limits \<Rightarrow> entry \<Rightarrow> entry \<Rightarrow> advice" where
  "calculate_next_step limits_now curr_e last_e =
     (let dt = elapsed_minutes curr_e last_e in
      if dt \<le> 0
      then \<lparr>next_h2 = h2 curr_e, next_air = air curr_e, msg = Waiting, a_slope = 0\<rparr>
      else
        let H2_GAIN = 0.20;
            actual_slope = (tc3 curr_e - tc3 last_e) / dt;
            stack_dt = \<bar>tc3 curr_e - t2 curr_e\<bar>;
            ab_dt = tc1 curr_e - tc3 curr_e;
            slope_error = target_slope limits_now - actual_slope;
            h2_adjustment = slope_error / H2_GAIN;
            suggested_h2 = max 0 (h2 curr_e + h2_adjustment);
            suggested_air = air curr_e;
            status_msg = Stable;
            (suggested_h2, suggested_air, status_msg) =
              (if ab_dt > real_of_int (max_ab_dt limits_now - 10)
               then (min suggested_h2 (h2 curr_e * 0.95), suggested_air + 50,
                     AfterburnerProtection)
               else (suggested_h2, suggested_air, status_msg));
            (suggested_air, status_msg) =
              (if stack_dt > real_of_int (max_stack_dt limits_now - 15)
               then (suggested_air + 100, StackProtection)
               else (suggested_air, status_msg))
        in \<lparr>next_h2 = py_round suggested_h2 2,
            next_air = py_round (max suggested_air (real_of_int (min_air_flow limits_now))) 1,
            msg = status_msg,
            a_slope = actual_slope\<rparr>)"

text \<open>
  The same function with every operation rounded as the interpreter rounds it.
  \<^verbatim>\<open>total_seconds()\<close> is the correctly rounded quotient of the microseconds by \<open>10\<^sup>6\<close>; the
  literals \<^verbatim>\<open>0.20\<close> and \<^verbatim>\<open>0.95\<close> are binary64 numbers; \<^verbatim>\<open>abs\<close>, \<^verbatim>\<open>max\<close> and \<^verbatim>\<open>min\<close> are
  exact, and so is the comparison of a float with an int. At line 88
  \<^verbatim>\<open>max(suggested_air, min_air_flow)\<close> is the int when the int is the greater, and \<^verbatim>\<open>round\<close>
  returns an int as it is.
\<close>

definition calculate_next_step_f64 :: "limits \<Rightarrow> entry \<Rightarrow> entry \<Rightarrow> advice" where
  "calculate_next_step_f64 limits_now curr_e last_e =
     (let dt = fl (fl (real_of_int (time curr_e - time last_e) / 1000000) / 60) in
      if dt \<le> 0
      then \<lparr>next_h2 = h2 curr_e, next_air = air curr_e, msg = Waiting, a_slope = 0\<rparr>
      else
        let H2_GAIN = fl 0.20;
            actual_slope = fl (fl (tc3 curr_e - tc3 last_e) / dt);
            stack_dt = \<bar>fl (tc3 curr_e - t2 curr_e)\<bar>;
            ab_dt = fl (tc1 curr_e - tc3 curr_e);
            slope_error = fl (target_slope limits_now - actual_slope);
            h2_adjustment = fl (slope_error / H2_GAIN);
            suggested_h2 = max 0 (fl (h2 curr_e + h2_adjustment));
            suggested_air = air curr_e;
            status_msg = Stable;
            (suggested_h2, suggested_air, status_msg) =
              (if ab_dt > real_of_int (max_ab_dt limits_now - 10)
               then (min suggested_h2 (fl (h2 curr_e * fl 0.95)), fl (suggested_air + 50),
                     AfterburnerProtection)
               else (suggested_h2, suggested_air, status_msg));
            (suggested_air, status_msg) =
              (if stack_dt > real_of_int (max_stack_dt limits_now - 15)
               then (fl (suggested_air + 100), StackProtection)
               else (suggested_air, status_msg))
        in \<lparr>next_h2 = float_round suggested_h2 2,
            next_air = (if real_of_int (min_air_flow limits_now) > suggested_air
                        then real_of_int (min_air_flow limits_now)
                        else float_round suggested_air 1),
            msg = status_msg,
            a_slope = actual_slope\<rparr>)"

subsection \<open>The sample history\<close>

text \<open>Lines 131 to 133: append, then drop the head once more than 20 entries are held.\<close>

definition history_append :: "entry \<Rightarrow> entry list \<Rightarrow> entry list" where
  "history_append e history =
     (let history = history @ [e]
      in if length history > 20 then tl history else history)"

subsection \<open>The boundary-condition log\<close>

text \<open>
  The keys of the dict \<^verbatim>\<open>current_config\<close> (lines 30 to 34): target rate, stack
  temperature-difference limit, afterburner temperature-difference limit. The dict has
  these three keys only.
\<close>

datatype config_key = TargetRate | StackDtLimit | AbDtLimit

type_synonym config = "(config_key \<times> real) list"

definition current_config :: "limits \<Rightarrow> config" where
  "current_config limits_now =
     [(TargetRate, target_slope limits_now),
      (StackDtLimit, real_of_int (max_stack_dt limits_now)),
      (AbDtLimit, real_of_int (max_ab_dt limits_now))]"

text \<open>
  One row of the log (lines 39 to 44): the clock reading, the key, the old value (what
  \<^verbatim>\<open>dict.get\<close> returns, \<open>None\<close> for an absent key) and the new value.
\<close>

record log_entry =
  log_time :: string
  item :: config_key
  old_value :: "real option"
  new_value :: real

text \<open>
  The loop of lines 37 to 44 over the keys of \<^verbatim>\<open>current_config\<close> in insertion order; each
  hit is inserted at position 0. The clock is read once per hit, hence a function of the
  key.
\<close>

fun record_changes :: "(config_key \<Rightarrow> string) \<Rightarrow> config \<Rightarrow> config \<Rightarrow> log_entry list \<Rightarrow> log_entry list" where
  "record_changes now last_cfg [] entries = entries"
| "record_changes now last_cfg ((key, v) # rest) entries =
     record_changes now last_cfg rest
       (if Some v \<noteq> map_of last_cfg key
        then \<lparr>log_time = now key, item = key, old_value = map_of last_cfg key,
               new_value = v\<rparr> # entries
        else entries)"

record session =
  history :: "entry list"
  config_log :: "log_entry list"
  last_config :: config

text \<open>Lines 10 to 15: the initial session state.\<close>

definition init_session :: session where
  "init_session = \<lparr>history = [], config_log = [], last_config = []\<rparr>"

text \<open>
  Lines 30 to 45, run on every rerun of the script: an empty \<^verbatim>\<open>last_config\<close> is falsy, so
  nothing is logged on the first run.
\<close>

definition sidebar_update :: "(config_key \<Rightarrow> string) \<Rightarrow> limits \<Rightarrow> session \<Rightarrow> session" where
  "sidebar_update now limits_now s =
     (let cur = current_config limits_now;
          entries = (if last_config s \<noteq> [] \<and> cur \<noteq> last_config s
                 then record_changes now (last_config s) cur (config_log s)
                 else config_log s)
      in s\<lparr>config_log := entries, last_config := cur\<rparr>)"

subsection \<open>The example of the specification\<close>

definition example_last :: entry where
  "example_last = \<lparr>time = 0, h2 = 10, air = 800, t2 = 300, tc3 = 280, tc1 = 430\<rparr>"

definition example_curr :: entry where
  "example_curr =
     \<lparr>time = 60000000, h2 = 10, air = 800, t2 = 300, tc3 = 280.5, tc1 = 440\<rparr>"

definition example_limits :: limits where
  "example_limits =
     \<lparr>target_slope = 0.7, max_stack_dt = 100, max_ab_dt = 170, min_air_flow = 500\<rparr>"





text \<open>
  Inputs for the double arithmetic. A decimal that is not a binary64 number stands for the
  nearest one, as the literal does in Python: \<open>fl 0.7\<close>, \<open>fl 500.55\<close>, \<open>fl 279.3\<close>.
\<close>

definition limits_07 :: limits where
  "limits_07 =
     \<lparr>target_slope = fl 0.7, max_stack_dt = 100, max_ab_dt = 170, min_air_flow = 500\<rparr>"

definition limits_03 :: limits where
  "limits_03 =
     \<lparr>target_slope = fl 0.3, max_stack_dt = 100, max_ab_dt = 170, min_air_flow = 500\<rparr>"

text \<open>
  One minute apart, on a ramp of \<open>280 - fl 279.3\<close> degrees per minute, with the afterburner
  difference at 165 (five below the limit of 170): a hydrogen flow of 35.5, whose cap
  \<open>35.5 * 0.95\<close> is 33.725 in exact arithmetic, and an air flow of \<open>fl 500.55\<close>.
\<close>

definition cap_last :: entry where
  "cap_last =
     \<lparr>time = 0, h2 = 35.5, air = fl 500.55, t2 = 300, tc3 = fl 279.3, tc1 = 430\<rparr>"

definition cap_curr :: entry where
  "cap_curr =
     \<lparr>time = 60000000, h2 = 35.5, air = fl 500.55, t2 = 300, tc3 = 280, tc1 = 445\<rparr>"

text \<open>The same sample with a cathode inlet at 400, so that the stack difference is 120.\<close>

definition cap_hot_curr :: entry where
  "cap_hot_curr =
     \<lparr>time = 60000000, h2 = 35.5, air = fl 500.55, t2 = 400, tc3 = 280, tc1 = 445\<rparr>"

text \<open>The same sample with a hydrogen flow of 0.5 and an air flow of 800.\<close>

definition half_curr :: entry where
  "half_curr =
     \<lparr>time = 60000000, h2 = 0.5, air = 800, t2 = 300, tc3 = 280, tc1 = 445\<rparr>"

text \<open>
  Two samples 48 seconds apart, the cathode outlet rising from 280 to 281.5, under a target
  of \<open>fl 0.3\<close>: in exact arithmetic the fuel law gives \<open>10 + (0.3 - 1.875) / 0.2 = 2.125\<close>.
  The afterburner difference is 148.5.
\<close>

definition tie_last :: entry where
  "tie_last = \<lparr>time = 0, h2 = 10, air = 800, t2 = 300, tc3 = 280, tc1 = 430\<rparr>"

definition tie_curr :: entry where
  "tie_curr =
     \<lparr>time = 48000000, h2 = 10, air = 800, t2 = 300, tc3 = 281.5, tc1 = 430\<rparr>"

text \<open>The same sample with a cathode inlet at 400, so that the stack difference is 118.5.\<close>

definition tie_hot_curr :: entry where
  "tie_hot_curr =
     \<lparr>time = 48000000, h2 = 10, air = 800, t2 = 400, tc3 = 281.5, tc1 = 430\<rparr>"

text \<open>Twenty-five samples, numbered by their time stamps.\<close>

definition numbered_entry :: "nat \<Rightarrow> entry" where
  "numbered_entry i = \<lparr>time = int i, h2 = 10, air = 800, t2 = 300, tc3 = 280, tc1 = 430\<rparr>"

definition twenty_five_entries :: "entry list" where
  "twenty_five_entries = map numbered_entry [0..<25]"

text \<open>The history after a run of submissions, starting from a given history.\<close>

definition append_all :: "entry list \<Rightarrow> entry list \<Rightarrow> entry list" where
  "append_all store es = foldl (\<lambda>h e. history_append e h) store es"

section \<open>Properties\<close>

subsection \<open>Rounding is monotone and keeps integers\<close>

lemma round_half_even_bounds:
  "\<lfloor>y\<rfloor> \<le> round_half_even y" "round_half_even y \<le> \<lfloor>y\<rfloor> + 1"
  by (simp_all add: round_half_even_def Let_def)

lemma round_half_even_mono:
  assumes "x \<le> y"
  shows "round_half_even x \<le> round_half_even y"
proof (cases "\<lfloor>x\<rfloor> = \<lfloor>y\<rfloor>")
  case True
  with assms have "x - of_int \<lfloor>x\<rfloor> \<le> y - of_int \<lfloor>y\<rfloor>"
    by simp
  with True show ?thesis
    by (auto simp: round_half_even_def Let_def)
next
  case False
  with assms have "\<lfloor>x\<rfloor> < \<lfloor>y\<rfloor>"
    by (simp add: floor_mono order.strict_iff_order)
  then have "round_half_even x \<le> \<lfloor>y\<rfloor>"
    using round_half_even_bounds(2) [of x] by linarith
  then show ?thesis
    using round_half_even_bounds(1) [of y] by linarith
qed

lemma round_half_even_of_int: "round_half_even (of_int m) = m"
  by (simp add: round_half_even_def)

lemma py_round_mono: "x \<le> y \<Longrightarrow> py_round x n \<le> py_round y n"
  by (simp add: py_round_def divide_right_mono round_half_even_mono)

lemma py_round_of_int: "py_round (of_int m) n = of_int m"
proof -
  have "of_int m * (10::real) ^ n = of_int (m * 10 ^ n)"
    by simp
  then have "round_half_even (of_int m * 10 ^ n) = m * 10 ^ n"
    by (simp only: round_half_even_of_int)
  then show ?thesis
    by (simp add: py_round_def)
qed

lemma py_round_nonneg: "0 \<le> x \<Longrightarrow> 0 \<le> py_round x n"
  using py_round_mono [of 0 x n] py_round_of_int [of 0 n] by simp

lemma round_half_even_error: "\<bar>of_int (round_half_even y) - y\<bar> \<le> 1 / 2"
  unfolding round_half_even_def Let_def
  by (auto simp: abs_le_iff)

lemma py_round_error: "\<bar>py_round x n - x\<bar> \<le> 1 / (2 * 10 ^ n)"
proof -
  have "\<bar>py_round x n - x\<bar> =
        \<bar>of_int (round_half_even (x * 10 ^ n)) - x * 10 ^ n\<bar> / 10 ^ n"
    by (simp add: py_round_def field_simps flip: abs_mult)
  also have "\<dots> \<le> (1 / 2) / 10 ^ n"
    by (intro divide_right_mono round_half_even_error) simp
  finally show ?thesis by simp
qed

subsection \<open>Binary64 rounding: sign, order and fixed points\<close>

lemma two_powi_pos [simp]: "0 < (2::real) powi k"
  by (simp add: zero_less_power_int)

lemma binade_bounds:
  assumes "x \<noteq> 0"
  shows "2 powi binade x \<le> \<bar>x\<bar>" and "\<bar>x\<bar> < 2 powi (binade x + 1)"
proof -
  define a where "a = \<bar>x\<bar>"
  have apos: "0 < a"
    using assms by (simp add: a_def)
  have "2 powi binade x \<le> a \<and> a < 2 powi (binade x + 1)"
  proof (cases "1 \<le> a")
    case True
    define n where "n = \<lfloor>a\<rfloor>"
    have npos: "0 < n"
      using True by (simp add: n_def)
    define b where "b = bitlen n"
    have bb: "2 ^ nat (b - 1) \<le> n" "n < 2 ^ nat b"
      using bitlen_bounds [OF npos] by (simp_all add: b_def)
    have b1: "1 \<le> b"
      using npos bitlen_nonneg [of n] bitlen_eq_zero_iff [of n] by (simp add: b_def) 
    have bin: "binade x = b - 1"
      using True by (simp add: binade_def a_def b_def n_def)
    have "real_of_int (2 ^ nat (b - 1)) \<le> real_of_int n"
      using bb(1) by (simp only: of_int_le_iff)
    also have "\<dots> \<le> a"
      by (simp add: n_def)
    finally have lo: "2 powi (b - 1) \<le> a"
      using b1 by (simp add: power_int_def)
    have "n + 1 \<le> 2 ^ nat b"
      using bb(2) by simp
    then have "real_of_int (n + 1) \<le> real_of_int (2 ^ nat b)"
      by (simp only: of_int_le_iff)
    moreover have "a < real_of_int (n + 1)"
      by (simp add: n_def)
    ultimately have "a < real_of_int (2 ^ nat b)"
      by linarith
    then have hi: "a < 2 powi b"
      using b1 by (simp add: power_int_def)
    from lo hi show ?thesis
      by (simp add: bin)
  next
    case False
    define q where "q = 1 / a"
    have q1: "1 < q"
      using False apos by (simp add: q_def)
    define m where "m = \<lceil>q\<rceil> - 1"
    have mpos: "0 < m"
      using q1 by (simp add: m_def less_ceiling_iff)
    define b where "b = bitlen m"
    have bb: "2 ^ nat (b - 1) \<le> m" "m < 2 ^ nat b"
      using bitlen_bounds [OF mpos] by (simp_all add: b_def)
    have b1: "1 \<le> b"
      using mpos bitlen_nonneg [of m] bitlen_eq_zero_iff [of m] by (simp add: b_def)
    have bin: "binade x = - b"
      using False by (simp add: binade_def a_def b_def m_def q_def)
    have "real_of_int m < q"
      by (simp add: m_def) linarith
    moreover have "real_of_int (2 ^ nat (b - 1)) \<le> real_of_int m"
      using bb(1) by (simp only: of_int_le_iff)
    ultimately have "real_of_int (2 ^ nat (b - 1)) < q"
      by linarith
    then have qlo: "2 ^ nat (b - 1) < q"
      by simp
    have "m + 1 \<le> 2 ^ nat b"
      using bb(2) by simp
    then have "real_of_int (m + 1) \<le> real_of_int (2 ^ nat b)"
      by (simp only: of_int_le_iff)
    moreover have "q \<le> real_of_int (m + 1)"
      by (simp add: m_def)
    ultimately have "q \<le> real_of_int (2 ^ nat b)"
      by linarith
    then have qhi: "q \<le> 2 ^ nat b"
      by simp
    have aq: "a = 1 / q"
      by (simp add: q_def)
    have lo: "2 powi (- b) \<le> a"
      using qhi q1 b1 unfolding aq by (simp add: power_int_def field_simps)
    have hi: "a < 2 powi (- b + 1)"
    proof -
      have "(2::real) powi (- b + 1) = 2 powi (- (b - 1))"
        by simp
      also have "\<dots> = inverse (2 powi (b - 1))"
        by (rule power_int_minus)
      also have "\<dots> = 1 / 2 ^ nat (b - 1)"
        using b1 by (simp add: power_int_def inverse_eq_divide)
      finally have e: "(2::real) powi (- b + 1) = 1 / 2 ^ nat (b - 1)" .
      have "a < 1 / 2 ^ nat (b - 1)"
        using qlo q1 unfolding aq by (simp add: field_simps)
      then show ?thesis
        by (simp only: e)
    qed
    from lo hi show ?thesis
      by (simp add: bin)
  qed
  then show "2 powi binade x \<le> \<bar>x\<bar>" and "\<bar>x\<bar> < 2 powi (binade x + 1)"
    by (simp_all add: a_def)
qed

lemma binade_unique:
  assumes "2 powi k \<le> \<bar>x\<bar>" and "\<bar>x\<bar> < 2 powi (k + 1)"
  shows "binade x = k"
proof -
  have "0 < \<bar>x\<bar>"
    using assms(1) two_powi_pos [of k] by linarith
  then have nz: "x \<noteq> 0"
    by simp
  note b = binade_bounds [OF nz]
  have "\<not> binade x < k"
  proof
    assume "binade x < k"
    then have "binade x + 1 \<le> k"
      by simp
    then have "(2::real) powi (binade x + 1) \<le> 2 powi k"
      by (intro power_int_increasing) simp_all
    with b(2) assms(1) show False
      by linarith
  qed
  moreover have "\<not> k < binade x"
  proof
    assume "k < binade x"
    then have "k + 1 \<le> binade x"
      by simp
    then have "(2::real) powi (k + 1) \<le> 2 powi binade x"
      by (intro power_int_increasing) simp_all
    with b(1) assms(2) show False
      by linarith
  qed
  ultimately show ?thesis
    by simp
qed

lemma ulp_exp_eqI:
  assumes "2 powi (k + 52) \<le> \<bar>x\<bar>" and "\<bar>x\<bar> < 2 powi (k + 53)"
  shows "ulp_exp x = k"
proof -
  have "\<bar>x\<bar> < 2 powi (k + 52 + 1)"
    using assms(2) by (simp add: add.commute add.left_commute)
  with assms(1) have "binade x = k + 52"
    by (rule binade_unique)
  then show ?thesis
    by (simp add: ulp_exp_def)
qed

lemma ulp_exp_bounds:
  assumes "x \<noteq> 0"
  shows "2 powi (ulp_exp x + 52) \<le> \<bar>x\<bar>" and "\<bar>x\<bar> < 2 powi (ulp_exp x + 53)"
proof -
  have e: "ulp_exp x + 52 = binade x" "ulp_exp x + 53 = binade x + 1"
    by (simp_all add: ulp_exp_def)
  show "2 powi (ulp_exp x + 52) \<le> \<bar>x\<bar>" and "\<bar>x\<bar> < 2 powi (ulp_exp x + 53)"
    unfolding e using binade_bounds [OF assms] by simp_all
qed

lemma round_half_even_minus: "round_half_even (- y) = - round_half_even y"
proof (cases "y = of_int \<lfloor>y\<rfloor>")
  case True
  then obtain m :: int where "y = of_int m" ..
  then have "- y = of_int (- m)" by simp
  with \<open>y = of_int m\<close> show ?thesis
    by (simp only: round_half_even_of_int)
next
  case False
  then have fl: "\<lfloor>- y\<rfloor> = - \<lfloor>y\<rfloor> - 1"
    by (metis ceiling_altdef ceiling_def add_diff_cancel_right' diff_minus_eq_add minus_diff_eq uminus_add_conv_diff)
  show ?thesis
    unfolding round_half_even_def Let_def fl
    using False by (auto simp: field_simps) 
qed


lemma ulp_exp_minus [simp]: "ulp_exp (- x) = ulp_exp x"
  by (simp add: ulp_exp_def binade_def)

lemma fl_zero [simp]: "fl 0 = 0"
  by (simp add: fl_def)

lemma fl_minus: "fl (- x) = - fl x"
  by (simp add: fl_def round_half_even_minus)

lemma fl_eqI:
  assumes "2 ^ 52 \<le> \<bar>x\<bar> / 2 powi k" and "\<bar>x\<bar> / 2 powi k < 2 ^ 53"
  shows "fl x = of_int (round_half_even (x / 2 powi k)) * 2 powi k"
proof -
  have lo: "2 powi (k + 52) \<le> \<bar>x\<bar>"
    using assms(1) by (simp add: power_int_add field_simps)
  have hi: "\<bar>x\<bar> < 2 powi (k + 53)"
    using assms(2) by (simp add: power_int_add field_simps)
  have k: "ulp_exp x = k"
    using lo hi by (rule ulp_exp_eqI)
  have "0 < \<bar>x\<bar>"
    using lo two_powi_pos [of "k + 52"] by linarith
  then have "x \<noteq> 0"
    by simp
  then show ?thesis
    by (simp add: fl_def k)
qed

lemma scaled_bounds:
  assumes "x \<noteq> 0"
  shows "2 ^ 52 \<le> \<bar>x\<bar> / 2 powi ulp_exp x" and "\<bar>x\<bar> / 2 powi ulp_exp x < 2 ^ 53"
  using ulp_exp_bounds [OF assms] by (simp_all add: power_int_add field_simps)

lemma significand_bounds:
  assumes "0 < x"
  shows "2 ^ 52 \<le> round_half_even (x / 2 powi ulp_exp x)"
    and "round_half_even (x / 2 powi ulp_exp x) \<le> 2 ^ 53"
proof -
  from assms have nz: "x \<noteq> 0" and ax: "\<bar>x\<bar> = x"
    by simp_all
  have lo: "of_int (2 ^ 52) \<le> x / 2 powi ulp_exp x"
    using scaled_bounds(1) [OF nz] ax by simp
  have hi: "x / 2 powi ulp_exp x \<le> of_int (2 ^ 53)"
    using scaled_bounds(2) [OF nz] ax by simp
  show "2 ^ 52 \<le> round_half_even (x / 2 powi ulp_exp x)"
    using round_half_even_mono [OF lo] by (simp only: round_half_even_of_int)
  show "round_half_even (x / 2 powi ulp_exp x) \<le> 2 ^ 53"
    using round_half_even_mono [OF hi] by (simp only: round_half_even_of_int)
qed

lemma fl_bounds:
  assumes "0 < x"
  shows "2 powi (ulp_exp x + 52) \<le> fl x" and "fl x \<le> 2 powi (ulp_exp x + 53)"
proof -
  let ?u = "(2::real) powi ulp_exp x"
  let ?n = "round_half_even (x / ?u)"
  have f: "fl x = of_int ?n * ?u"
    using assms by (simp add: fl_def)
  have "(2::real) ^ 52 \<le> of_int ?n"
    using significand_bounds(1) [OF assms] by (metis of_int_le_iff of_int_numeral of_int_power)
  then have "2 ^ 52 * ?u \<le> of_int ?n * ?u"
    by (simp add: mult_right_mono)
  then show "2 powi (ulp_exp x + 52) \<le> fl x"
    by (simp add: f power_int_add mult.commute)
  have "of_int ?n \<le> (2::real) ^ 53"
    using significand_bounds(2) [OF assms] by (metis of_int_le_iff of_int_numeral of_int_power)
  then have "of_int ?n * ?u \<le> 2 ^ 53 * ?u"
    by (simp add: mult_right_mono)
  then show "fl x \<le> 2 powi (ulp_exp x + 53)"
    by (simp add: f power_int_add mult.commute)
qed

lemma fl_pos: "0 < x \<Longrightarrow> 0 < fl x"
  using fl_bounds(1) [of x] two_powi_pos [of "ulp_exp x + 52"] by linarith

lemma ulp_exp_mono:
  assumes "0 < x" and "x \<le> y"
  shows "ulp_exp x \<le> ulp_exp y"
proof (rule ccontr)
  assume "\<not> ulp_exp x \<le> ulp_exp y"
  then have "ulp_exp y + 53 \<le> ulp_exp x + 52"
    by simp
  then have "(2::real) powi (ulp_exp y + 53) \<le> 2 powi (ulp_exp x + 52)"
    by (intro power_int_increasing) simp_all
  moreover have "\<bar>y\<bar> < 2 powi (ulp_exp y + 53)"
    using assms by (intro ulp_exp_bounds) simp
  moreover have "2 powi (ulp_exp x + 52) \<le> \<bar>x\<bar>"
    using assms by (intro ulp_exp_bounds) simp
  ultimately show False
    using assms by simp
qed

lemma fl_mono_pos:
  assumes "0 < x" and "x \<le> y"
  shows "fl x \<le> fl y"
proof (cases "ulp_exp x = ulp_exp y")
  case True
  have "x / 2 powi ulp_exp y \<le> y / 2 powi ulp_exp y"
    using assms(2) by (simp add: divide_right_mono)
  then have "round_half_even (x / 2 powi ulp_exp y) \<le> round_half_even (y / 2 powi ulp_exp y)"
    by (rule round_half_even_mono)
  then have "of_int (round_half_even (x / 2 powi ulp_exp y)) * 2 powi ulp_exp y
             \<le> of_int (round_half_even (y / 2 powi ulp_exp y)) * (2::real) powi ulp_exp y"
    by (simp add: mult_right_mono)
  then show ?thesis
    using assms by (simp add: fl_def True)
next
  case False
  with ulp_exp_mono [OF assms] have "ulp_exp x + 53 \<le> ulp_exp y + 52"
    by simp
  then have "(2::real) powi (ulp_exp x + 53) \<le> 2 powi (ulp_exp y + 52)"
    by (intro power_int_increasing) simp_all
  moreover have "fl x \<le> 2 powi (ulp_exp x + 53)"
    using assms(1) by (rule fl_bounds)
  moreover have "2 powi (ulp_exp y + 52) \<le> fl y"
    using assms by (intro fl_bounds) simp
  ultimately show ?thesis
    by linarith
qed

lemma fl_nonneg: "0 \<le> x \<Longrightarrow> 0 \<le> fl x"
  using fl_pos [of x] by (cases "x = 0") simp_all

lemma fl_nonpos: "x \<le> 0 \<Longrightarrow> fl x \<le> 0"
  using fl_nonneg [of "- x"] by (simp add: fl_minus)

lemma fl_mono:
  assumes "x \<le> y"
  shows "fl x \<le> fl y"
proof -
  consider "0 < x" | "x \<le> 0" "0 \<le> y" | "y < 0"
    using assms by linarith
  then show ?thesis
  proof cases
    case 1
    then show ?thesis using assms by (rule fl_mono_pos)
  next
    case 2
    then show ?thesis
      using fl_nonpos [of x] fl_nonneg [of y] by linarith
  next
    case 3
    then have "fl (- y) \<le> fl (- x)"
      using assms by (intro fl_mono_pos) simp_all
    then show ?thesis
      by (simp add: fl_minus)
  qed
qed

lemma fl_fixedI:
  assumes "x / 2 powi ulp_exp x = of_int n"
  shows "fl x = x"
proof (cases "x = 0")
  case True
  then show ?thesis by simp
next
  case False
  have "fl x = of_int (round_half_even (of_int n)) * 2 powi ulp_exp x"
    using False by (simp add: fl_def assms)
  also have "\<dots> = of_int n * 2 powi ulp_exp x"
    by (simp only: round_half_even_of_int)
  also have "\<dots> = x"
    by (simp flip: assms)
  finally show ?thesis .
qed

lemma fl_idem: "fl (fl x) = fl x"
proof -
  have pos: "fl (fl y) = fl y" if "0 < y" for y
  proof -
    let ?k = "ulp_exp y"
    let ?n = "round_half_even (y / 2 powi ?k)"
    have f: "fl y = of_int ?n * 2 powi ?k"
      using that by (simp add: fl_def)
    have lo: "2 ^ 52 \<le> ?n" and hi: "?n \<le> 2 ^ 53"
      using significand_bounds [OF that] by simp_all
    show ?thesis
    proof (cases "?n = 2 ^ 53")
      case True
      have v: "fl y = 2 ^ 52 * 2 powi (?k + 1)"
        by (simp add: f True power_int_add)
      have "ulp_exp (fl y) = ?k + 1"
        by (rule ulp_exp_eqI) (simp_all add: v power_int_add)
      then have "fl y / 2 powi ulp_exp (fl y) = of_int (2 ^ 52)"
        by (simp add: v)
      then show ?thesis
        by (rule fl_fixedI)
    next
      case False
      with hi have lt: "?n < 2 ^ 53"
        by simp
      have rlo: "(2::real) ^ 52 \<le> of_int ?n"
        using lo by (metis of_int_le_iff of_int_numeral of_int_power)
      have rhi: "of_int ?n < (2::real) ^ 53"
        using lt by (metis of_int_less_iff of_int_numeral of_int_power)
      have nonneg: "0 \<le> of_int ?n * (2::real) powi ?k"
        using rlo by simp
      have av: "\<bar>fl y\<bar> = of_int ?n * 2 powi ?k"
        unfolding f using nonneg by (rule abs_of_nonneg)
      have "ulp_exp (fl y) = ?k"
      proof (rule ulp_exp_eqI)
        have "2 ^ 52 * 2 powi ?k \<le> of_int ?n * (2::real) powi ?k"
          using rlo by (simp add: mult_right_mono)
        then show "2 powi (?k + 52) \<le> \<bar>fl y\<bar>"
          unfolding av by (simp add: power_int_add mult.commute)
        have "of_int ?n * (2::real) powi ?k < 2 ^ 53 * 2 powi ?k"
          using rhi by (simp add: mult_strict_right_mono)
        then show "\<bar>fl y\<bar> < 2 powi (?k + 53)"
          unfolding av by (simp add: power_int_add mult.commute)
      qed
      then have "fl y / 2 powi ulp_exp (fl y) = of_int ?n"
        by (simp add: f)
      then show ?thesis
        by (rule fl_fixedI)
    qed
  qed
  consider "0 < x" | "x = 0" | "x < 0"
    by linarith
  then show ?thesis
  proof cases
    case 1
    then show ?thesis by (rule pos)
  next
    case 2
    then show ?thesis by simp
  next
    case 3
    then have "fl (fl (- x)) = fl (- x)"
      by (intro pos) simp
    then show ?thesis
      by (simp add: fl_minus)
  qed
qed

lemma ulp_exp_nonpos:
  assumes "x \<noteq> 0" and "\<bar>x\<bar> < 2 ^ 53"
  shows "ulp_exp x \<le> 0"
proof (rule ccontr)
  assume "\<not> ulp_exp x \<le> 0"
  then have "53 \<le> ulp_exp x + 52"
    by simp
  then have "(2::real) powi 53 \<le> 2 powi (ulp_exp x + 52)"
    by (intro power_int_increasing) simp_all
  with ulp_exp_bounds(1) [OF assms(1)] assms(2) show False
    by simp
qed

lemma ulp_exp_nonneg:
  assumes "2 ^ 52 \<le> \<bar>x\<bar>"
  shows "0 \<le> ulp_exp x"
proof (rule ccontr)
  assume "\<not> 0 \<le> ulp_exp x"
  then have "ulp_exp x + 53 \<le> 52"
    by simp
  then have "(2::real) powi (ulp_exp x + 53) \<le> 2 powi 52"
    by (intro power_int_increasing) simp_all
  moreover have "x \<noteq> 0"
    using assms by auto
  ultimately show False
    using ulp_exp_bounds(2) [of x] assms by simp
qed

lemma fl_of_int:
  assumes "\<bar>m\<bar> \<le> 2 ^ 53"
  shows "fl (of_int m) = of_int m"
proof (cases "\<bar>m\<bar> = 2 ^ 53")
  case True
  then have v: "\<bar>real_of_int m\<bar> = 2 ^ 53"
    by (metis of_int_abs of_int_numeral of_int_power)
  have k: "ulp_exp (of_int m) = 1"
    by (rule ulp_exp_eqI) (simp_all add: v)
  from True have "m = 2 ^ 53 \<or> m = - (2 ^ 53)"
    by linarith
  then have "real_of_int m / 2 powi ulp_exp (of_int m) = of_int (m div 2)"
    unfolding k by auto
  then show ?thesis
    by (rule fl_fixedI)
next
  case False
  show ?thesis
  proof (cases "m = 0")
    case True
    then show ?thesis by simp
  next
    case nz: False
    from False assms have "\<bar>m\<bar> < 2 ^ 53"
      by simp
    then have "\<bar>real_of_int m\<bar> < 2 ^ 53"
      by (metis of_int_abs of_int_less_iff of_int_numeral of_int_power)
    with nz have "ulp_exp (of_int m) \<le> 0"
      by (intro ulp_exp_nonpos) simp_all
    then obtain j :: nat where j: "ulp_exp (of_int m) = - int j"
      by (metis nat_0_le neg_le_0_iff_le minus_minus)
    have "real_of_int m / 2 powi ulp_exp (of_int m) = of_int (m * 2 ^ j)"
      by (simp add: j power_int_minus field_simps)
    then show ?thesis
      by (rule fl_fixedI)
  qed
qed

lemma fixed_large_is_int:
  assumes "fl a = a" and "2 ^ 52 \<le> \<bar>a\<bar>"
  shows "\<exists>m::int. a = of_int m"
proof -
  have nz: "a \<noteq> 0"
    using assms(2) by auto
  have "0 \<le> ulp_exp a"
    using assms(2) by (rule ulp_exp_nonneg)
  then obtain j :: nat where j: "ulp_exp a = int j"
    by (metis nat_0_le)
  have "a = of_int (round_half_even (a / 2 powi ulp_exp a)) * 2 powi ulp_exp a"
    using assms(1) nz by (simp add: fl_def)
  then have "a = of_int (round_half_even (a / 2 powi ulp_exp a) * 2 ^ j)"
    by (simp add: j)
  then show ?thesis ..
qed

text \<open>Evaluation at a given scaling: \<open>k\<close> is supplied, not searched.\<close>

lemma fl_eval:
  assumes "2 ^ 52 \<le> \<bar>x\<bar> * 2 ^ k" and "\<bar>x\<bar> * 2 ^ k < 2 ^ 53"
  shows "fl x = of_int (round_half_even (x * 2 ^ k)) / 2 ^ k"
  using fl_eqI [of x "- int k"] assms by (simp add: power_int_minus field_simps)

lemma float_round_mono: "x \<le> y \<Longrightarrow> float_round x n \<le> float_round y n"
  unfolding float_round_def by (intro fl_mono py_round_mono)

lemma float_round_le_int:
  assumes "fl a = a" and "a \<le> of_int m"
  shows "float_round a n \<le> of_int m"
proof -
  have r: "py_round a n \<le> of_int m"
    using py_round_mono [OF assms(2), of n] by (simp only: py_round_of_int)
  consider "\<bar>m\<bar> \<le> 2 ^ 53" | "2 ^ 53 < m" | "m < - (2 ^ 53)"
    by linarith
  then show ?thesis
  proof cases
    case 1
    have "fl (py_round a n) \<le> fl (of_int m)"
      using r by (rule fl_mono)
    then show ?thesis
      by (simp add: float_round_def fl_of_int [OF 1])
  next
    case 2
    then have big: "(2::real) ^ 53 \<le> of_int m"
      by (metis less_imp_le of_int_le_iff of_int_numeral of_int_power)
    show ?thesis
    proof (cases "2 ^ 52 \<le> a")
      case True
      then obtain i :: int where i: "a = of_int i"
        using fixed_large_is_int [OF assms(1)] by auto
      have "float_round a n = fl a"
        unfolding float_round_def i by (simp only: py_round_of_int)
      then show ?thesis
        using assms by simp
    next
      case False
      then have "a \<le> of_int (2 ^ 52)"
        by simp
      then have "py_round a n \<le> of_int (2 ^ 52)"
        using py_round_mono [of a "of_int (2 ^ 52)" n] by (simp only: py_round_of_int)
      then have "fl (py_round a n) \<le> fl (of_int (2 ^ 52))"
        by (rule fl_mono)
      also have "\<dots> = of_int (2 ^ 52)"
        by (rule fl_of_int) simp
      finally show ?thesis
        using big by (simp add: float_round_def)
    qed
  next
    case 3
    then have "real_of_int m \<le> - (2 ^ 53)"
      by (metis less_imp_le of_int_le_iff of_int_minus of_int_numeral of_int_power)
    with assms(2) have "2 ^ 52 \<le> \<bar>a\<bar>"
      by simp
    then obtain i :: int where i: "a = of_int i"
      using fixed_large_is_int [OF assms(1)] by auto
    have "float_round a n = fl a"
      unfolding float_round_def i by (simp only: py_round_of_int)
    then show ?thesis
      using assms by simp
  qed
qed

lemma fl_add_nonneg_ge:
  assumes "fl a = a" and "0 \<le> d"
  shows "a \<le> fl (a + d)"
proof -
  have "fl a \<le> fl (a + d)"
    using assms(2) by (intro fl_mono) simp
  then show ?thesis
    by (simp add: assms(1))
qed

lemma py_round_minus: "py_round (- x) n = - py_round x n"
  by (simp add: py_round_def round_half_even_minus)

lemma float_round_minus: "float_round (- x) n = - float_round x n"
  by (simp add: float_round_def py_round_minus fl_minus)

lemma float_round_ge_int:
  assumes "fl a = a" and "of_int m \<le> a"
  shows "of_int m \<le> float_round a n"
proof -
  have "fl (- a) = - a"
    using assms(1) by (simp add: fl_minus)
  moreover have "- a \<le> of_int (- m)"
    using assms(2) by simp
  ultimately have "float_round (- a) n \<le> of_int (- m)"
    by (rule float_round_le_int)
  then show ?thesis
    by (simp add: float_round_minus)
qed

lemma float_round_nonneg: "0 \<le> x \<Longrightarrow> 0 \<le> float_round x n"
  unfolding float_round_def by (intro fl_nonneg py_round_nonneg)

text \<open>Ties go to the even neighbour, in the decimal rounding and in the binary one.\<close>

lemma py_round_ties: "py_round 0.125 2 = 0.12" "py_round 0.375 2 = 0.38" "py_round 2.5 0 = 2"
  by (simp_all add: py_round_def round_half_even_def)

lemma fl_ties:
  "fl 9007199254740993 = 9007199254740992" "fl 9007199254740995 = 9007199254740996"
  using fl_eqI [of 9007199254740993 1] fl_eqI [of 9007199254740995 1]
  by (simp_all add: round_half_even_def)

text \<open>The double that the literal \<^verbatim>\<open>0.1\<close> denotes.\<close>

lemma fl_one_tenth: "fl 0.1 = 3602879701896397 / 36028797018963968"
  using fl_eval [of "0.1" 56] by (simp add: round_half_even_def)

subsection \<open>The four components of the advice when time has passed\<close>

lemma elapsed_minutes_nonpos_iff:
  "elapsed_minutes curr_e last_e \<le> 0 \<longleftrightarrow> time curr_e \<le> time last_e"
  by (simp add: elapsed_minutes_def divide_le_0_iff)

lemma elapsed_minutes_pos_iff:
  "0 < elapsed_minutes curr_e last_e \<longleftrightarrow> time last_e < time curr_e"
  by (simp add: elapsed_minutes_def zero_less_divide_iff)

lemma step_next_h2:
  "time l < time c \<Longrightarrow>
   next_h2 (calculate_next_step L c l) =
     py_round
       (if tc1 c - tc3 c > real_of_int (max_ab_dt L - 10)
        then min (max 0 (h2 c
                    + (target_slope L - (tc3 c - tc3 l) / elapsed_minutes c l) / 0.20))
                 (h2 c * 0.95)
        else max 0 (h2 c
               + (target_slope L - (tc3 c - tc3 l) / elapsed_minutes c l) / 0.20)) 2"
  using elapsed_minutes_pos_iff [of c l]
  by (simp add: calculate_next_step_def Let_def split: if_splits)


lemma step_msg:
  "time l < time c \<Longrightarrow>
   msg (calculate_next_step L c l) =
     (if \<bar>tc3 c - t2 c\<bar> > real_of_int (max_stack_dt L - 15) then StackProtection
      else if tc1 c - tc3 c > real_of_int (max_ab_dt L - 10) then AfterburnerProtection
      else Stable)"
  using elapsed_minutes_pos_iff [of c l]
  by (simp add: calculate_next_step_def Let_def split: if_splits)

lemma step_a_slope:
  "time l < time c \<Longrightarrow>
   a_slope (calculate_next_step L c l) = (tc3 c - tc3 l) / elapsed_minutes c l"
  using elapsed_minutes_pos_iff [of c l]
  by (simp add: calculate_next_step_def Let_def split: if_splits)

lemmas step_eval =
  calculate_next_step_def elapsed_minutes_def py_round_def round_half_even_def Let_def

text \<open>The exact reading divides by the elapsed minutes: 48 seconds are 0.8 minutes.\<close>

lemma elapsed_minutes_tie: "elapsed_minutes tie_curr tie_last = 0.8"
  by (simp add: elapsed_minutes_def tie_curr_def tie_last_def)

subsection \<open>The components of the advice in double arithmetic\<close>

lemma dt_nonpos_iff:
  "fl (fl (real_of_int d / 1000000) / 60) \<le> 0 \<longleftrightarrow> d \<le> 0"
proof
  assume "d \<le> 0"
  then have "real_of_int d / 1000000 \<le> 0"
    by simp
  then have "fl (real_of_int d / 1000000) / 60 \<le> 0"
    using fl_nonpos by (simp add: divide_le_0_iff)
  then show "fl (fl (real_of_int d / 1000000) / 60) \<le> 0"
    by (rule fl_nonpos)
next
  assume a: "fl (fl (real_of_int d / 1000000) / 60) \<le> 0"
  show "d \<le> 0"
  proof (rule ccontr)
    assume "\<not> d \<le> 0"
    then have "0 < real_of_int d / 1000000"
      by simp
    then have "0 < fl (real_of_int d / 1000000) / 60"
      using fl_pos by simp
    then have "0 < fl (fl (real_of_int d / 1000000) / 60)"
      by (rule fl_pos)
    with a show False
      by simp
  qed
qed

lemma f64_deferred:
  "time c \<le> time l \<Longrightarrow>
   calculate_next_step_f64 L c l =
     \<lparr>next_h2 = h2 c, next_air = air c, msg = Waiting, a_slope = 0\<rparr>"
  by (simp add: calculate_next_step_f64_def dt_nonpos_iff del: of_int_diff)

lemma f64_a_slope:
  "time l < time c \<Longrightarrow>
   a_slope (calculate_next_step_f64 L c l) =
     fl (fl (tc3 c - tc3 l) / fl (fl (real_of_int (time c - time l) / 1000000) / 60))"
  using dt_nonpos_iff [of "time c - time l"]
  by (simp add: calculate_next_step_f64_def Let_def del: of_int_diff split: if_splits)

lemma f64_next_h2:
  "time l < time c \<Longrightarrow>
   next_h2 (calculate_next_step_f64 L c l) =
     float_round
       (if fl (tc1 c - tc3 c) > real_of_int (max_ab_dt L - 10)
        then min (max 0 (fl (h2 c + fl (fl (target_slope L
                    - fl (fl (tc3 c - tc3 l)
                          / fl (fl (real_of_int (time c - time l) / 1000000) / 60)))
                    / fl 0.20))))
                 (fl (h2 c * fl 0.95))
        else max 0 (fl (h2 c + fl (fl (target_slope L
                    - fl (fl (tc3 c - tc3 l)
                          / fl (fl (real_of_int (time c - time l) / 1000000) / 60)))
                    / fl 0.20)))) 2"
  using dt_nonpos_iff [of "time c - time l"]
  by (simp add: calculate_next_step_f64_def Let_def del: of_int_diff split: if_splits)

lemma f64_msg:
  "time l < time c \<Longrightarrow>
   msg (calculate_next_step_f64 L c l) =
     (if \<bar>fl (tc3 c - t2 c)\<bar> > real_of_int (max_stack_dt L - 15) then StackProtection
      else if fl (tc1 c - tc3 c) > real_of_int (max_ab_dt L - 10) then AfterburnerProtection
      else Stable)"
  using dt_nonpos_iff [of "time c - time l"]
  by (simp add: calculate_next_step_f64_def Let_def del: of_int_diff split: if_splits)

text \<open>The air flow before the floor and the rounding.\<close>

lemma f64_next_air:
  "time l < time c \<Longrightarrow>
   next_air (calculate_next_step_f64 L c l) =
     (if fl (tc1 c - tc3 c) > real_of_int (max_ab_dt L - 10)
      then if \<bar>fl (tc3 c - t2 c)\<bar> > real_of_int (max_stack_dt L - 15)
           then if real_of_int (min_air_flow L) > fl (fl (air c + 50) + 100)
                then real_of_int (min_air_flow L)
                else float_round (fl (fl (air c + 50) + 100)) 1
           else if real_of_int (min_air_flow L) > fl (air c + 50)
                then real_of_int (min_air_flow L)
                else float_round (fl (air c + 50)) 1
      else if \<bar>fl (tc3 c - t2 c)\<bar> > real_of_int (max_stack_dt L - 15)
           then if real_of_int (min_air_flow L) > fl (air c + 100)
                then real_of_int (min_air_flow L)
                else float_round (fl (air c + 100)) 1
           else if real_of_int (min_air_flow L) > air c
                then real_of_int (min_air_flow L)
                else float_round (air c) 1)"
  using dt_nonpos_iff [of "time c - time l"]
  by (simp add: calculate_next_step_f64_def Let_def del: of_int_diff split: if_splits)

lemma floored_ge:
  assumes "fl a = a" and "fl b = b" and "a \<le> b"
  shows "float_round a n \<le> (if real_of_int m > b then real_of_int m else float_round b n)"
proof (cases "real_of_int m > b")
  case True
  with assms(3) have "a \<le> real_of_int m"
    by simp
  with assms(1) have "float_round a n \<le> real_of_int m"
    by (rule float_round_le_int)
  with True show ?thesis
    by simp
next
  case False
  with assms(3) show ?thesis
    by (simp add: float_round_mono)
qed

subsection \<open>The double arithmetic at sample inputs\<close>

text \<open>
  For each input, first the value of every rounded operation of the step, each by the
  scaling that brings its argument between \<open>2\<^sup>5\<^sup>2\<close> and \<open>2\<^sup>5\<^sup>3\<close>, then the advice returned.
\<close>

lemma cap_parts:
  shows "h2 cap_curr = 71 / 2"
    and "air cap_curr = 8805768724532429 / 17592186044416"
    and "fl (tc1 cap_curr - tc3 cap_curr) = 165"
    and "fl (tc3 cap_curr - t2 cap_curr) = - 20"
    and "fl (h2 cap_curr + fl (fl (target_slope limits_07 - fl (fl (tc3 cap_curr - tc3
          cap_last) / fl (fl (real_of_int (time cap_curr - time cap_last) / 1000000) / 60))) /
          fl 0.20)) = 624522604576769 / 17592186044416"
    and "fl (h2 cap_curr * fl 0.95) = 4746371794783437 / 140737488355328"
    and "fl (air cap_curr + 50) = 2421344506688307 / 4398046511104"
    and "fl (fl (air cap_curr + 50) + 100) = 2861149157798707 / 4398046511104"
    and "fl (air cap_curr + 100) = 2641246832243507 / 4398046511104"
    and "fl (fl (tc3 cap_curr - tc3 cap_last) / fl (fl (real_of_int (time cap_curr - time
          cap_last) / 1000000) / 60)) = 12314530231091 / 17592186044416"
proof -
  have v_h2_c: "h2 cap_curr = 71 / 2"
    by (simp add: cap_curr_def)
  have v_air_c: "air cap_curr = 8805768724532429 / 17592186044416"
    using fl_eval [of "500.55" 44]
    by (simp add: cap_curr_def round_half_even_def)
  have v_t2_c: "t2 cap_curr = 300"
    by (simp add: cap_curr_def)
  have v_tc3_c: "tc3 cap_curr = 280"
    by (simp add: cap_curr_def)
  have v_tc1_c: "tc1 cap_curr = 445"
    by (simp add: cap_curr_def)
  have v_tc3_l: "tc3 cap_last = 4913497562205389 / 17592186044416"
    using fl_eval [of "279.3" 44]
    by (simp add: cap_last_def round_half_even_def)
  have v_target_slope_L: "target_slope limits_07 = 3152519739159347 / 4503599627370496"
    using fl_eval [of "0.7" 53]
    by (simp add: limits_07_def round_half_even_def)
  have v_us: "real_of_int (time cap_curr - time cap_last) = 60000000"
    by (simp add: cap_curr_def cap_last_def)
  have f1: "fl (real_of_int (time cap_curr - time cap_last) / 1000000) = 60"
    using fl_eval [of "real_of_int (time cap_curr - time cap_last) / 1000000" 47] unfolding v_us
    by (simp add: round_half_even_def)
  have e_dt: "fl (fl (real_of_int (time cap_curr - time cap_last) / 1000000) / 60) = 1"
    using fl_eval [of "fl (real_of_int (time cap_curr - time cap_last) / 1000000) / 60" 52]
          unfolding f1
    by (simp add: round_half_even_def)
  have f3: "fl (tc3 cap_curr - tc3 cap_last) = 12314530231091 / 17592186044416"
    using fl_eval [of "tc3 cap_curr - tc3 cap_last" 53] 
    by (simp add: v_tc3_c v_tc3_l round_half_even_def)
  have e_slope: "fl (fl (tc3 cap_curr - tc3 cap_last) / fl (fl (real_of_int (time cap_curr -
        time cap_last) / 1000000) / 60)) = 12314530231091 / 17592186044416"
    using fl_eval [of "fl (tc3 cap_curr - tc3 cap_last) / fl (fl (real_of_int (time cap_curr -
          time cap_last) / 1000000) / 60)" 53] unfolding f3 e_dt
    by (simp add: v_tc3_c v_tc3_l round_half_even_def)
  have f5: "fl (target_slope limits_07 - fl (fl (tc3 cap_curr - tc3 cap_last) / fl (fl
        (real_of_int (time cap_curr - time cap_last) / 1000000) / 60))) = 51 / 4503599627370496"
    using fl_eval [of "target_slope limits_07 - fl (fl (tc3 cap_curr - tc3 cap_last) / fl (fl
          (real_of_int (time cap_curr - time cap_last) / 1000000) / 60))" 99] unfolding e_slope
    by (simp add: v_tc3_c v_tc3_l v_target_slope_L round_half_even_def)
  have f6: "fl 0.20 = 3602879701896397 / 18014398509481984"
    using fl_eval [of "0.20" 55] 
    by (simp add: round_half_even_def)
  have f7: "fl (fl (target_slope limits_07 - fl (fl (tc3 cap_curr - tc3 cap_last) / fl (fl
        (real_of_int (time cap_curr - time cap_last) / 1000000) / 60))) / fl 0.20) = 255 /
        4503599627370496"
    using fl_eval [of "fl (target_slope limits_07 - fl (fl (tc3 cap_curr - tc3 cap_last) / fl
          (fl (real_of_int (time cap_curr - time cap_last) / 1000000) / 60))) / fl 0.20" 97]
          unfolding f5 f6
    by (simp add: v_tc3_c v_tc3_l v_target_slope_L round_half_even_def)
  have e_base: "fl (h2 cap_curr + fl (fl (target_slope limits_07 - fl (fl (tc3 cap_curr - tc3
        cap_last) / fl (fl (real_of_int (time cap_curr - time cap_last) / 1000000) / 60))) / fl
        0.20)) = 624522604576769 / 17592186044416"
    using fl_eval [of "h2 cap_curr + fl (fl (target_slope limits_07 - fl (fl (tc3 cap_curr -
          tc3 cap_last) / fl (fl (real_of_int (time cap_curr - time cap_last) / 1000000) /
          60))) / fl 0.20)" 47] unfolding f7
    by (simp add: v_h2_c v_tc3_c v_tc3_l v_target_slope_L round_half_even_def)
  have f9: "fl 0.95 = 4278419646001971 / 4503599627370496"
    using fl_eval [of "0.95" 53] 
    by (simp add: round_half_even_def)
  have e_cap: "fl (h2 cap_curr * fl 0.95) = 4746371794783437 / 140737488355328"
    using fl_eval [of "h2 cap_curr * fl 0.95" 47] unfolding f9
    by (simp add: v_h2_c round_half_even_def)
  have e_ab: "fl (tc1 cap_curr - tc3 cap_curr) = 165"
    using fl_eval [of "tc1 cap_curr - tc3 cap_curr" 45] 
    by (simp add: v_tc3_c v_tc1_c round_half_even_def)
  have e_st: "fl (tc3 cap_curr - t2 cap_curr) = - 20"
    using fl_eval [of "tc3 cap_curr - t2 cap_curr" 48] 
    by (simp add: v_t2_c v_tc3_c round_half_even_def)
  have e_a50: "fl (air cap_curr + 50) = 2421344506688307 / 4398046511104"
    using fl_eval [of "air cap_curr + 50" 43] 
    by (simp add: v_air_c round_half_even_def)
  have e_a150: "fl (fl (air cap_curr + 50) + 100) = 2861149157798707 / 4398046511104"
    using fl_eval [of "fl (air cap_curr + 50) + 100" 43] unfolding e_a50
    by (simp add: v_air_c round_half_even_def)
  have e_a100: "fl (air cap_curr + 100) = 2641246832243507 / 4398046511104"
    using fl_eval [of "air cap_curr + 100" 43] 
    by (simp add: v_air_c round_half_even_def)
  show "h2 cap_curr = 71 / 2"
    and "air cap_curr = 8805768724532429 / 17592186044416"
    and "fl (tc1 cap_curr - tc3 cap_curr) = 165"
    and "fl (tc3 cap_curr - t2 cap_curr) = - 20"
    and "fl (h2 cap_curr + fl (fl (target_slope limits_07 - fl (fl (tc3 cap_curr - tc3
          cap_last) / fl (fl (real_of_int (time cap_curr - time cap_last) / 1000000) / 60))) /
          fl 0.20)) = 624522604576769 / 17592186044416"
    and "fl (h2 cap_curr * fl 0.95) = 4746371794783437 / 140737488355328"
    and "fl (air cap_curr + 50) = 2421344506688307 / 4398046511104"
    and "fl (fl (air cap_curr + 50) + 100) = 2861149157798707 / 4398046511104"
    and "fl (air cap_curr + 100) = 2641246832243507 / 4398046511104"
    and "fl (fl (tc3 cap_curr - tc3 cap_last) / fl (fl (real_of_int (time cap_curr - time
          cap_last) / 1000000) / 60)) = 12314530231091 / 17592186044416"
    by (fact v_h2_c v_air_c e_ab e_st e_base e_cap e_a50 e_a150 e_a100 e_slope)+
qed

lemma cap_eval:
  shows "next_h2 (calculate_next_step_f64 limits_07 cap_curr cap_last) = fl 33.73"
    and "next_air (calculate_next_step_f64 limits_07 cap_curr cap_last) = 550.5"
    and "msg (calculate_next_step_f64 limits_07 cap_curr cap_last) = AfterburnerProtection"
    and "a_slope (calculate_next_step_f64 limits_07 cap_curr cap_last) = 12314530231091 /
          17592186044416"
proof -
  have t: "time cap_last < time cap_curr"
    by (simp add: cap_curr_def cap_last_def)
  show "next_h2 (calculate_next_step_f64 limits_07 cap_curr cap_last) = fl 33.73"
    unfolding f64_next_h2 [OF t] cap_parts(3) cap_parts(5) cap_parts(6)
    by (simp add: limits_07_def float_round_def py_round_def round_half_even_def)
  show "next_air (calculate_next_step_f64 limits_07 cap_curr cap_last) = 550.5"
    using fl_eval [of "550.5" 43]
    unfolding f64_next_air [OF t] cap_parts(3) cap_parts(4) cap_parts(8) cap_parts(9)
    unfolding cap_parts(7)
    unfolding cap_parts(2)
    by (simp add: limits_07_def float_round_def py_round_def round_half_even_def)
  show "msg (calculate_next_step_f64 limits_07 cap_curr cap_last) = AfterburnerProtection"
    unfolding f64_msg [OF t] cap_parts(3) cap_parts(4)
    by (simp add: limits_07_def)
  show "a_slope (calculate_next_step_f64 limits_07 cap_curr cap_last) = 12314530231091 /
        17592186044416"
    unfolding f64_a_slope [OF t] cap_parts(10) ..
qed

lemma both_parts:
  shows "h2 cap_hot_curr = 71 / 2"
    and "air cap_hot_curr = 8805768724532429 / 17592186044416"
    and "fl (tc1 cap_hot_curr - tc3 cap_hot_curr) = 165"
    and "fl (tc3 cap_hot_curr - t2 cap_hot_curr) = - 120"
    and "fl (h2 cap_hot_curr + fl (fl (target_slope limits_07 - fl (fl (tc3 cap_hot_curr - tc3
          cap_last) / fl (fl (real_of_int (time cap_hot_curr - time cap_last) / 1000000) /
          60))) / fl 0.20)) = 624522604576769 / 17592186044416"
    and "fl (h2 cap_hot_curr * fl 0.95) = 4746371794783437 / 140737488355328"
    and "fl (air cap_hot_curr + 50) = 2421344506688307 / 4398046511104"
    and "fl (fl (air cap_hot_curr + 50) + 100) = 2861149157798707 / 4398046511104"
    and "fl (air cap_hot_curr + 100) = 2641246832243507 / 4398046511104"
    and "fl (fl (tc3 cap_hot_curr - tc3 cap_last) / fl (fl (real_of_int (time cap_hot_curr -
          time cap_last) / 1000000) / 60)) = 12314530231091 / 17592186044416"
proof -
  have v_h2_c: "h2 cap_hot_curr = 71 / 2"
    by (simp add: cap_hot_curr_def)
  have v_air_c: "air cap_hot_curr = 8805768724532429 / 17592186044416"
    using fl_eval [of "500.55" 44]
    by (simp add: cap_hot_curr_def round_half_even_def)
  have v_t2_c: "t2 cap_hot_curr = 400"
    by (simp add: cap_hot_curr_def)
  have v_tc3_c: "tc3 cap_hot_curr = 280"
    by (simp add: cap_hot_curr_def)
  have v_tc1_c: "tc1 cap_hot_curr = 445"
    by (simp add: cap_hot_curr_def)
  have v_tc3_l: "tc3 cap_last = 4913497562205389 / 17592186044416"
    using fl_eval [of "279.3" 44]
    by (simp add: cap_last_def round_half_even_def)
  have v_target_slope_L: "target_slope limits_07 = 3152519739159347 / 4503599627370496"
    using fl_eval [of "0.7" 53]
    by (simp add: limits_07_def round_half_even_def)
  have v_us: "real_of_int (time cap_hot_curr - time cap_last) = 60000000"
    by (simp add: cap_hot_curr_def cap_last_def)
  have f1: "fl (real_of_int (time cap_hot_curr - time cap_last) / 1000000) = 60"
    using fl_eval [of "real_of_int (time cap_hot_curr - time cap_last) / 1000000" 47] unfolding
          v_us
    by (simp add: round_half_even_def)
  have e_dt: "fl (fl (real_of_int (time cap_hot_curr - time cap_last) / 1000000) / 60) = 1"
    using fl_eval [of "fl (real_of_int (time cap_hot_curr - time cap_last) / 1000000) / 60" 52]
          unfolding f1
    by (simp add: round_half_even_def)
  have f3: "fl (tc3 cap_hot_curr - tc3 cap_last) = 12314530231091 / 17592186044416"
    using fl_eval [of "tc3 cap_hot_curr - tc3 cap_last" 53] 
    by (simp add: v_tc3_c v_tc3_l round_half_even_def)
  have e_slope: "fl (fl (tc3 cap_hot_curr - tc3 cap_last) / fl (fl (real_of_int (time
        cap_hot_curr - time cap_last) / 1000000) / 60)) = 12314530231091 / 17592186044416"
    using fl_eval [of "fl (tc3 cap_hot_curr - tc3 cap_last) / fl (fl (real_of_int (time
          cap_hot_curr - time cap_last) / 1000000) / 60)" 53] unfolding f3 e_dt
    by (simp add: v_tc3_c v_tc3_l round_half_even_def)
  have f5: "fl (target_slope limits_07 - fl (fl (tc3 cap_hot_curr - tc3 cap_last) / fl (fl
        (real_of_int (time cap_hot_curr - time cap_last) / 1000000) / 60))) = 51 /
        4503599627370496"
    using fl_eval [of "target_slope limits_07 - fl (fl (tc3 cap_hot_curr - tc3 cap_last) / fl
          (fl (real_of_int (time cap_hot_curr - time cap_last) / 1000000) / 60))" 99] unfolding
          e_slope
    by (simp add: v_tc3_c v_tc3_l v_target_slope_L round_half_even_def)
  have f6: "fl 0.20 = 3602879701896397 / 18014398509481984"
    using fl_eval [of "0.20" 55] 
    by (simp add: round_half_even_def)
  have f7: "fl (fl (target_slope limits_07 - fl (fl (tc3 cap_hot_curr - tc3 cap_last) / fl (fl
        (real_of_int (time cap_hot_curr - time cap_last) / 1000000) / 60))) / fl 0.20) = 255 /
        4503599627370496"
    using fl_eval [of "fl (target_slope limits_07 - fl (fl (tc3 cap_hot_curr - tc3 cap_last) /
          fl (fl (real_of_int (time cap_hot_curr - time cap_last) / 1000000) / 60))) / fl 0.20"
          97] unfolding f5 f6
    by (simp add: v_tc3_c v_tc3_l v_target_slope_L round_half_even_def)
  have e_base: "fl (h2 cap_hot_curr + fl (fl (target_slope limits_07 - fl (fl (tc3 cap_hot_curr
        - tc3 cap_last) / fl (fl (real_of_int (time cap_hot_curr - time cap_last) / 1000000) /
        60))) / fl 0.20)) = 624522604576769 / 17592186044416"
    using fl_eval [of "h2 cap_hot_curr + fl (fl (target_slope limits_07 - fl (fl (tc3
          cap_hot_curr - tc3 cap_last) / fl (fl (real_of_int (time cap_hot_curr - time
          cap_last) / 1000000) / 60))) / fl 0.20)" 47] unfolding f7
    by (simp add: v_h2_c v_tc3_c v_tc3_l v_target_slope_L round_half_even_def)
  have f9: "fl 0.95 = 4278419646001971 / 4503599627370496"
    using fl_eval [of "0.95" 53] 
    by (simp add: round_half_even_def)
  have e_cap: "fl (h2 cap_hot_curr * fl 0.95) = 4746371794783437 / 140737488355328"
    using fl_eval [of "h2 cap_hot_curr * fl 0.95" 47] unfolding f9
    by (simp add: v_h2_c round_half_even_def)
  have e_ab: "fl (tc1 cap_hot_curr - tc3 cap_hot_curr) = 165"
    using fl_eval [of "tc1 cap_hot_curr - tc3 cap_hot_curr" 45] 
    by (simp add: v_tc3_c v_tc1_c round_half_even_def)
  have e_st: "fl (tc3 cap_hot_curr - t2 cap_hot_curr) = - 120"
    using fl_eval [of "tc3 cap_hot_curr - t2 cap_hot_curr" 46] 
    by (simp add: v_t2_c v_tc3_c round_half_even_def)
  have e_a50: "fl (air cap_hot_curr + 50) = 2421344506688307 / 4398046511104"
    using fl_eval [of "air cap_hot_curr + 50" 43] 
    by (simp add: v_air_c round_half_even_def)
  have e_a150: "fl (fl (air cap_hot_curr + 50) + 100) = 2861149157798707 / 4398046511104"
    using fl_eval [of "fl (air cap_hot_curr + 50) + 100" 43] unfolding e_a50
    by (simp add: v_air_c round_half_even_def)
  have e_a100: "fl (air cap_hot_curr + 100) = 2641246832243507 / 4398046511104"
    using fl_eval [of "air cap_hot_curr + 100" 43] 
    by (simp add: v_air_c round_half_even_def)
  show "h2 cap_hot_curr = 71 / 2"
    and "air cap_hot_curr = 8805768724532429 / 17592186044416"
    and "fl (tc1 cap_hot_curr - tc3 cap_hot_curr) = 165"
    and "fl (tc3 cap_hot_curr - t2 cap_hot_curr) = - 120"
    and "fl (h2 cap_hot_curr + fl (fl (target_slope limits_07 - fl (fl (tc3 cap_hot_curr - tc3
          cap_last) / fl (fl (real_of_int (time cap_hot_curr - time cap_last) / 1000000) /
          60))) / fl 0.20)) = 624522604576769 / 17592186044416"
    and "fl (h2 cap_hot_curr * fl 0.95) = 4746371794783437 / 140737488355328"
    and "fl (air cap_hot_curr + 50) = 2421344506688307 / 4398046511104"
    and "fl (fl (air cap_hot_curr + 50) + 100) = 2861149157798707 / 4398046511104"
    and "fl (air cap_hot_curr + 100) = 2641246832243507 / 4398046511104"
    and "fl (fl (tc3 cap_hot_curr - tc3 cap_last) / fl (fl (real_of_int (time cap_hot_curr -
          time cap_last) / 1000000) / 60)) = 12314530231091 / 17592186044416"
    by (fact v_h2_c v_air_c e_ab e_st e_base e_cap e_a50 e_a150 e_a100 e_slope)+
qed

lemma both_eval:
  shows "next_h2 (calculate_next_step_f64 limits_07 cap_hot_curr cap_last) = fl 33.73"
    and "next_air (calculate_next_step_f64 limits_07 cap_hot_curr cap_last) = 650.5"
    and "msg (calculate_next_step_f64 limits_07 cap_hot_curr cap_last) = StackProtection"
    and "a_slope (calculate_next_step_f64 limits_07 cap_hot_curr cap_last) = 12314530231091 /
          17592186044416"
proof -
  have t: "time cap_last < time cap_hot_curr"
    by (simp add: cap_hot_curr_def cap_last_def)
  show "next_h2 (calculate_next_step_f64 limits_07 cap_hot_curr cap_last) = fl 33.73"
    unfolding f64_next_h2 [OF t] both_parts(3) both_parts(5) both_parts(6)
    by (simp add: limits_07_def float_round_def py_round_def round_half_even_def)
  show "next_air (calculate_next_step_f64 limits_07 cap_hot_curr cap_last) = 650.5"
    using fl_eval [of "650.5" 43]
    unfolding f64_next_air [OF t] both_parts(3) both_parts(4) both_parts(8) both_parts(9)
    unfolding both_parts(7)
    unfolding both_parts(2)
    by (simp add: limits_07_def float_round_def py_round_def round_half_even_def)
  show "msg (calculate_next_step_f64 limits_07 cap_hot_curr cap_last) = StackProtection"
    unfolding f64_msg [OF t] both_parts(3) both_parts(4)
    by (simp add: limits_07_def)
  show "a_slope (calculate_next_step_f64 limits_07 cap_hot_curr cap_last) = 12314530231091 /
        17592186044416"
    unfolding f64_a_slope [OF t] both_parts(10) ..
qed

lemma half_parts:
  shows "h2 half_curr = 1 / 2"
    and "air half_curr = 800"
    and "fl (tc1 half_curr - tc3 half_curr) = 165"
    and "fl (tc3 half_curr - t2 half_curr) = - 20"
    and "fl (h2 half_curr + fl (fl (target_slope limits_07 - fl (fl (tc3 half_curr - tc3
          cap_last) / fl (fl (real_of_int (time half_curr - time cap_last) / 1000000) / 60))) /
          fl 0.20)) = 2251799813685503 / 4503599627370496"
    and "fl (h2 half_curr * fl 0.95) = 4278419646001971 / 9007199254740992"
    and "fl (air half_curr + 50) = 850"
    and "fl (fl (air half_curr + 50) + 100) = 950"
    and "fl (air half_curr + 100) = 900"
    and "fl (fl (tc3 half_curr - tc3 cap_last) / fl (fl (real_of_int (time half_curr - time
          cap_last) / 1000000) / 60)) = 12314530231091 / 17592186044416"
proof -
  have v_h2_c: "h2 half_curr = 1 / 2"
    by (simp add: half_curr_def)
  have v_air_c: "air half_curr = 800"
    by (simp add: half_curr_def)
  have v_t2_c: "t2 half_curr = 300"
    by (simp add: half_curr_def)
  have v_tc3_c: "tc3 half_curr = 280"
    by (simp add: half_curr_def)
  have v_tc1_c: "tc1 half_curr = 445"
    by (simp add: half_curr_def)
  have v_tc3_l: "tc3 cap_last = 4913497562205389 / 17592186044416"
    using fl_eval [of "279.3" 44]
    by (simp add: cap_last_def round_half_even_def)
  have v_target_slope_L: "target_slope limits_07 = 3152519739159347 / 4503599627370496"
    using fl_eval [of "0.7" 53]
    by (simp add: limits_07_def round_half_even_def)
  have v_us: "real_of_int (time half_curr - time cap_last) = 60000000"
    by (simp add: half_curr_def cap_last_def)
  have f1: "fl (real_of_int (time half_curr - time cap_last) / 1000000) = 60"
    using fl_eval [of "real_of_int (time half_curr - time cap_last) / 1000000" 47] unfolding
          v_us
    by (simp add: round_half_even_def)
  have e_dt: "fl (fl (real_of_int (time half_curr - time cap_last) / 1000000) / 60) = 1"
    using fl_eval [of "fl (real_of_int (time half_curr - time cap_last) / 1000000) / 60" 52]
          unfolding f1
    by (simp add: round_half_even_def)
  have f3: "fl (tc3 half_curr - tc3 cap_last) = 12314530231091 / 17592186044416"
    using fl_eval [of "tc3 half_curr - tc3 cap_last" 53] 
    by (simp add: v_tc3_c v_tc3_l round_half_even_def)
  have e_slope: "fl (fl (tc3 half_curr - tc3 cap_last) / fl (fl (real_of_int (time half_curr -
        time cap_last) / 1000000) / 60)) = 12314530231091 / 17592186044416"
    using fl_eval [of "fl (tc3 half_curr - tc3 cap_last) / fl (fl (real_of_int (time half_curr
          - time cap_last) / 1000000) / 60)" 53] unfolding f3 e_dt
    by (simp add: v_tc3_c v_tc3_l round_half_even_def)
  have f5: "fl (target_slope limits_07 - fl (fl (tc3 half_curr - tc3 cap_last) / fl (fl
        (real_of_int (time half_curr - time cap_last) / 1000000) / 60))) = 51 /
        4503599627370496"
    using fl_eval [of "target_slope limits_07 - fl (fl (tc3 half_curr - tc3 cap_last) / fl (fl
          (real_of_int (time half_curr - time cap_last) / 1000000) / 60))" 99] unfolding e_slope
    by (simp add: v_tc3_c v_tc3_l v_target_slope_L round_half_even_def)
  have f6: "fl 0.20 = 3602879701896397 / 18014398509481984"
    using fl_eval [of "0.20" 55] 
    by (simp add: round_half_even_def)
  have f7: "fl (fl (target_slope limits_07 - fl (fl (tc3 half_curr - tc3 cap_last) / fl (fl
        (real_of_int (time half_curr - time cap_last) / 1000000) / 60))) / fl 0.20) = 255 /
        4503599627370496"
    using fl_eval [of "fl (target_slope limits_07 - fl (fl (tc3 half_curr - tc3 cap_last) / fl
          (fl (real_of_int (time half_curr - time cap_last) / 1000000) / 60))) / fl 0.20" 97]
          unfolding f5 f6
    by (simp add: v_tc3_c v_tc3_l v_target_slope_L round_half_even_def)
  have e_base: "fl (h2 half_curr + fl (fl (target_slope limits_07 - fl (fl (tc3 half_curr - tc3
        cap_last) / fl (fl (real_of_int (time half_curr - time cap_last) / 1000000) / 60))) /
        fl 0.20)) = 2251799813685503 / 4503599627370496"
    using fl_eval [of "h2 half_curr + fl (fl (target_slope limits_07 - fl (fl (tc3 half_curr -
          tc3 cap_last) / fl (fl (real_of_int (time half_curr - time cap_last) / 1000000) /
          60))) / fl 0.20)" 53] unfolding f7
    by (simp add: v_h2_c v_tc3_c v_tc3_l v_target_slope_L round_half_even_def)
  have f9: "fl 0.95 = 4278419646001971 / 4503599627370496"
    using fl_eval [of "0.95" 53] 
    by (simp add: round_half_even_def)
  have e_cap: "fl (h2 half_curr * fl 0.95) = 4278419646001971 / 9007199254740992"
    using fl_eval [of "h2 half_curr * fl 0.95" 54] unfolding f9
    by (simp add: v_h2_c round_half_even_def)
  have e_ab: "fl (tc1 half_curr - tc3 half_curr) = 165"
    using fl_eval [of "tc1 half_curr - tc3 half_curr" 45] 
    by (simp add: v_tc3_c v_tc1_c round_half_even_def)
  have e_st: "fl (tc3 half_curr - t2 half_curr) = - 20"
    using fl_eval [of "tc3 half_curr - t2 half_curr" 48] 
    by (simp add: v_t2_c v_tc3_c round_half_even_def)
  have e_a50: "fl (air half_curr + 50) = 850"
    using fl_eval [of "air half_curr + 50" 43] 
    by (simp add: v_air_c round_half_even_def)
  have e_a150: "fl (fl (air half_curr + 50) + 100) = 950"
    using fl_eval [of "fl (air half_curr + 50) + 100" 43] unfolding e_a50
    by (simp add: v_air_c round_half_even_def)
  have e_a100: "fl (air half_curr + 100) = 900"
    using fl_eval [of "air half_curr + 100" 43] 
    by (simp add: v_air_c round_half_even_def)
  show "h2 half_curr = 1 / 2"
    and "air half_curr = 800"
    and "fl (tc1 half_curr - tc3 half_curr) = 165"
    and "fl (tc3 half_curr - t2 half_curr) = - 20"
    and "fl (h2 half_curr + fl (fl (target_slope limits_07 - fl (fl (tc3 half_curr - tc3
          cap_last) / fl (fl (real_of_int (time half_curr - time cap_last) / 1000000) / 60))) /
          fl 0.20)) = 2251799813685503 / 4503599627370496"
    and "fl (h2 half_curr * fl 0.95) = 4278419646001971 / 9007199254740992"
    and "fl (air half_curr + 50) = 850"
    and "fl (fl (air half_curr + 50) + 100) = 950"
    and "fl (air half_curr + 100) = 900"
    and "fl (fl (tc3 half_curr - tc3 cap_last) / fl (fl (real_of_int (time half_curr - time
          cap_last) / 1000000) / 60)) = 12314530231091 / 17592186044416"
    by (fact v_h2_c v_air_c e_ab e_st e_base e_cap e_a50 e_a150 e_a100 e_slope)+
qed

lemma half_eval:
  shows "next_h2 (calculate_next_step_f64 limits_07 half_curr cap_last) = fl 0.47"
    and "next_air (calculate_next_step_f64 limits_07 half_curr cap_last) = 850"
    and "msg (calculate_next_step_f64 limits_07 half_curr cap_last) = AfterburnerProtection"
    and "a_slope (calculate_next_step_f64 limits_07 half_curr cap_last) = 12314530231091 /
          17592186044416"
proof -
  have t: "time cap_last < time half_curr"
    by (simp add: half_curr_def cap_last_def)
  show "next_h2 (calculate_next_step_f64 limits_07 half_curr cap_last) = fl 0.47"
    unfolding f64_next_h2 [OF t] half_parts(3) half_parts(5) half_parts(6)
    by (simp add: limits_07_def float_round_def py_round_def round_half_even_def)
  show "next_air (calculate_next_step_f64 limits_07 half_curr cap_last) = 850"
    using fl_eval [of "850" 43]
    unfolding f64_next_air [OF t] half_parts(3) half_parts(4) half_parts(8) half_parts(9)
    unfolding half_parts(7)
    unfolding half_parts(2)
    by (simp add: limits_07_def float_round_def py_round_def round_half_even_def)
  show "msg (calculate_next_step_f64 limits_07 half_curr cap_last) = AfterburnerProtection"
    unfolding f64_msg [OF t] half_parts(3) half_parts(4)
    by (simp add: limits_07_def)
  show "a_slope (calculate_next_step_f64 limits_07 half_curr cap_last) = 12314530231091 /
        17592186044416"
    unfolding f64_a_slope [OF t] half_parts(10) ..
qed

lemma tie_parts:
  shows "h2 tie_curr = 10"
    and "air tie_curr = 800"
    and "fl (tc1 tie_curr - tc3 tie_curr) = 297 / 2"
    and "fl (tc3 tie_curr - t2 tie_curr) = - (37 / 2)"
    and "fl (h2 tie_curr + fl (fl (target_slope limits_03 - fl (fl (tc3 tie_curr - tc3
          tie_last) / fl (fl (real_of_int (time tie_curr - time tie_last) / 1000000) / 60))) /
          fl 0.20)) = 2392537302040577 / 1125899906842624"
    and "fl (h2 tie_curr * fl 0.95) = 19 / 2"
    and "fl (air tie_curr + 50) = 850"
    and "fl (fl (air tie_curr + 50) + 100) = 950"
    and "fl (air tie_curr + 100) = 900"
    and "fl (fl (tc3 tie_curr - tc3 tie_last) / fl (fl (real_of_int (time tie_curr - time
          tie_last) / 1000000) / 60)) = 15 / 8"
proof -
  have v_h2_c: "h2 tie_curr = 10"
    by (simp add: tie_curr_def)
  have v_air_c: "air tie_curr = 800"
    by (simp add: tie_curr_def)
  have v_t2_c: "t2 tie_curr = 300"
    by (simp add: tie_curr_def)
  have v_tc3_c: "tc3 tie_curr = 563 / 2"
    by (simp add: tie_curr_def)
  have v_tc1_c: "tc1 tie_curr = 430"
    by (simp add: tie_curr_def)
  have v_tc3_l: "tc3 tie_last = 280"
    by (simp add: tie_last_def)
  have v_target_slope_L: "target_slope limits_03 = 5404319552844595 / 18014398509481984"
    using fl_eval [of "0.3" 54]
    by (simp add: limits_03_def round_half_even_def)
  have v_us: "real_of_int (time tie_curr - time tie_last) = 48000000"
    by (simp add: tie_curr_def tie_last_def)
  have f1: "fl (real_of_int (time tie_curr - time tie_last) / 1000000) = 48"
    using fl_eval [of "real_of_int (time tie_curr - time tie_last) / 1000000" 47] unfolding v_us
    by (simp add: round_half_even_def)
  have e_dt: "fl (fl (real_of_int (time tie_curr - time tie_last) / 1000000) / 60) =
        3602879701896397 / 4503599627370496"
    using fl_eval [of "fl (real_of_int (time tie_curr - time tie_last) / 1000000) / 60" 53]
          unfolding f1
    by (simp add: round_half_even_def)
  have f3: "fl (tc3 tie_curr - tc3 tie_last) = 3 / 2"
    using fl_eval [of "tc3 tie_curr - tc3 tie_last" 52] 
    by (simp add: v_tc3_c v_tc3_l round_half_even_def)
  have e_slope: "fl (fl (tc3 tie_curr - tc3 tie_last) / fl (fl (real_of_int (time tie_curr -
        time tie_last) / 1000000) / 60)) = 15 / 8"
    using fl_eval [of "fl (tc3 tie_curr - tc3 tie_last) / fl (fl (real_of_int (time tie_curr -
          time tie_last) / 1000000) / 60)" 52] unfolding f3 e_dt
    by (simp add: v_tc3_c v_tc3_l round_half_even_def)
  have f5: "fl (target_slope limits_03 - fl (fl (tc3 tie_curr - tc3 tie_last) / fl (fl
        (real_of_int (time tie_curr - time tie_last) / 1000000) / 60))) = - (7093169413108531 /
        4503599627370496)"
    using fl_eval [of "target_slope limits_03 - fl (fl (tc3 tie_curr - tc3 tie_last) / fl (fl
          (real_of_int (time tie_curr - time tie_last) / 1000000) / 60))" 52] unfolding e_slope
    by (simp add: v_tc3_c v_tc3_l v_target_slope_L round_half_even_def)
  have f6: "fl 0.20 = 3602879701896397 / 18014398509481984"
    using fl_eval [of "0.20" 55] 
    by (simp add: round_half_even_def)
  have f7: "fl (fl (target_slope limits_03 - fl (fl (tc3 tie_curr - tc3 tie_last) / fl (fl
        (real_of_int (time tie_curr - time tie_last) / 1000000) / 60))) / fl 0.20) = -
        (8866461766385663 / 1125899906842624)"
    using fl_eval [of "fl (target_slope limits_03 - fl (fl (tc3 tie_curr - tc3 tie_last) / fl
          (fl (real_of_int (time tie_curr - time tie_last) / 1000000) / 60))) / fl 0.20" 50]
          unfolding f5 f6
    by (simp add: v_tc3_c v_tc3_l v_target_slope_L round_half_even_def)
  have e_base: "fl (h2 tie_curr + fl (fl (target_slope limits_03 - fl (fl (tc3 tie_curr - tc3
        tie_last) / fl (fl (real_of_int (time tie_curr - time tie_last) / 1000000) / 60))) / fl
        0.20)) = 2392537302040577 / 1125899906842624"
    using fl_eval [of "h2 tie_curr + fl (fl (target_slope limits_03 - fl (fl (tc3 tie_curr -
          tc3 tie_last) / fl (fl (real_of_int (time tie_curr - time tie_last) / 1000000) /
          60))) / fl 0.20)" 51] unfolding f7
    by (simp add: v_h2_c v_tc3_c v_tc3_l v_target_slope_L round_half_even_def)
  have f9: "fl 0.95 = 4278419646001971 / 4503599627370496"
    using fl_eval [of "0.95" 53] 
    by (simp add: round_half_even_def)
  have e_cap: "fl (h2 tie_curr * fl 0.95) = 19 / 2"
    using fl_eval [of "h2 tie_curr * fl 0.95" 49] unfolding f9
    by (simp add: v_h2_c round_half_even_def)
  have e_ab: "fl (tc1 tie_curr - tc3 tie_curr) = 297 / 2"
    using fl_eval [of "tc1 tie_curr - tc3 tie_curr" 45] 
    by (simp add: v_tc3_c v_tc1_c round_half_even_def)
  have e_st: "fl (tc3 tie_curr - t2 tie_curr) = - (37 / 2)"
    using fl_eval [of "tc3 tie_curr - t2 tie_curr" 48] 
    by (simp add: v_t2_c v_tc3_c round_half_even_def)
  have e_a50: "fl (air tie_curr + 50) = 850"
    using fl_eval [of "air tie_curr + 50" 43] 
    by (simp add: v_air_c round_half_even_def)
  have e_a150: "fl (fl (air tie_curr + 50) + 100) = 950"
    using fl_eval [of "fl (air tie_curr + 50) + 100" 43] unfolding e_a50
    by (simp add: v_air_c round_half_even_def)
  have e_a100: "fl (air tie_curr + 100) = 900"
    using fl_eval [of "air tie_curr + 100" 43] 
    by (simp add: v_air_c round_half_even_def)
  show "h2 tie_curr = 10"
    and "air tie_curr = 800"
    and "fl (tc1 tie_curr - tc3 tie_curr) = 297 / 2"
    and "fl (tc3 tie_curr - t2 tie_curr) = - (37 / 2)"
    and "fl (h2 tie_curr + fl (fl (target_slope limits_03 - fl (fl (tc3 tie_curr - tc3
          tie_last) / fl (fl (real_of_int (time tie_curr - time tie_last) / 1000000) / 60))) /
          fl 0.20)) = 2392537302040577 / 1125899906842624"
    and "fl (h2 tie_curr * fl 0.95) = 19 / 2"
    and "fl (air tie_curr + 50) = 850"
    and "fl (fl (air tie_curr + 50) + 100) = 950"
    and "fl (air tie_curr + 100) = 900"
    and "fl (fl (tc3 tie_curr - tc3 tie_last) / fl (fl (real_of_int (time tie_curr - time
          tie_last) / 1000000) / 60)) = 15 / 8"
    by (fact v_h2_c v_air_c e_ab e_st e_base e_cap e_a50 e_a150 e_a100 e_slope)+
qed

lemma tie_eval:
  shows "next_h2 (calculate_next_step_f64 limits_03 tie_curr tie_last) = fl 2.13"
    and "next_air (calculate_next_step_f64 limits_03 tie_curr tie_last) = 800"
    and "msg (calculate_next_step_f64 limits_03 tie_curr tie_last) = Stable"
    and "a_slope (calculate_next_step_f64 limits_03 tie_curr tie_last) = 15 / 8"
proof -
  have t: "time tie_last < time tie_curr"
    by (simp add: tie_curr_def tie_last_def)
  show "next_h2 (calculate_next_step_f64 limits_03 tie_curr tie_last) = fl 2.13"
    unfolding f64_next_h2 [OF t] tie_parts(3) tie_parts(5) tie_parts(6)
    by (simp add: limits_03_def float_round_def py_round_def round_half_even_def)
  show "next_air (calculate_next_step_f64 limits_03 tie_curr tie_last) = 800"
    using fl_eval [of "800" 43]
    unfolding f64_next_air [OF t] tie_parts(3) tie_parts(4) tie_parts(8) tie_parts(9)
    unfolding tie_parts(7)
    unfolding tie_parts(2)
    by (simp add: limits_03_def float_round_def py_round_def round_half_even_def)
  show "msg (calculate_next_step_f64 limits_03 tie_curr tie_last) = Stable"
    unfolding f64_msg [OF t] tie_parts(3) tie_parts(4)
    by (simp add: limits_03_def)
  show "a_slope (calculate_next_step_f64 limits_03 tie_curr tie_last) = 15 / 8"
    unfolding f64_a_slope [OF t] tie_parts(10) ..
qed

lemma tiehot_parts:
  shows "h2 tie_hot_curr = 10"
    and "air tie_hot_curr = 800"
    and "fl (tc1 tie_hot_curr - tc3 tie_hot_curr) = 297 / 2"
    and "fl (tc3 tie_hot_curr - t2 tie_hot_curr) = - (237 / 2)"
    and "fl (h2 tie_hot_curr + fl (fl (target_slope limits_03 - fl (fl (tc3 tie_hot_curr - tc3
          tie_last) / fl (fl (real_of_int (time tie_hot_curr - time tie_last) / 1000000) /
          60))) / fl 0.20)) = 2392537302040577 / 1125899906842624"
    and "fl (h2 tie_hot_curr * fl 0.95) = 19 / 2"
    and "fl (air tie_hot_curr + 50) = 850"
    and "fl (fl (air tie_hot_curr + 50) + 100) = 950"
    and "fl (air tie_hot_curr + 100) = 900"
    and "fl (fl (tc3 tie_hot_curr - tc3 tie_last) / fl (fl (real_of_int (time tie_hot_curr -
          time tie_last) / 1000000) / 60)) = 15 / 8"
proof -
  have v_h2_c: "h2 tie_hot_curr = 10"
    by (simp add: tie_hot_curr_def)
  have v_air_c: "air tie_hot_curr = 800"
    by (simp add: tie_hot_curr_def)
  have v_t2_c: "t2 tie_hot_curr = 400"
    by (simp add: tie_hot_curr_def)
  have v_tc3_c: "tc3 tie_hot_curr = 563 / 2"
    by (simp add: tie_hot_curr_def)
  have v_tc1_c: "tc1 tie_hot_curr = 430"
    by (simp add: tie_hot_curr_def)
  have v_tc3_l: "tc3 tie_last = 280"
    by (simp add: tie_last_def)
  have v_target_slope_L: "target_slope limits_03 = 5404319552844595 / 18014398509481984"
    using fl_eval [of "0.3" 54]
    by (simp add: limits_03_def round_half_even_def)
  have v_us: "real_of_int (time tie_hot_curr - time tie_last) = 48000000"
    by (simp add: tie_hot_curr_def tie_last_def)
  have f1: "fl (real_of_int (time tie_hot_curr - time tie_last) / 1000000) = 48"
    using fl_eval [of "real_of_int (time tie_hot_curr - time tie_last) / 1000000" 47] unfolding
          v_us
    by (simp add: round_half_even_def)
  have e_dt: "fl (fl (real_of_int (time tie_hot_curr - time tie_last) / 1000000) / 60) =
        3602879701896397 / 4503599627370496"
    using fl_eval [of "fl (real_of_int (time tie_hot_curr - time tie_last) / 1000000) / 60" 53]
          unfolding f1
    by (simp add: round_half_even_def)
  have f3: "fl (tc3 tie_hot_curr - tc3 tie_last) = 3 / 2"
    using fl_eval [of "tc3 tie_hot_curr - tc3 tie_last" 52] 
    by (simp add: v_tc3_c v_tc3_l round_half_even_def)
  have e_slope: "fl (fl (tc3 tie_hot_curr - tc3 tie_last) / fl (fl (real_of_int (time
        tie_hot_curr - time tie_last) / 1000000) / 60)) = 15 / 8"
    using fl_eval [of "fl (tc3 tie_hot_curr - tc3 tie_last) / fl (fl (real_of_int (time
          tie_hot_curr - time tie_last) / 1000000) / 60)" 52] unfolding f3 e_dt
    by (simp add: v_tc3_c v_tc3_l round_half_even_def)
  have f5: "fl (target_slope limits_03 - fl (fl (tc3 tie_hot_curr - tc3 tie_last) / fl (fl
        (real_of_int (time tie_hot_curr - time tie_last) / 1000000) / 60))) = -
        (7093169413108531 / 4503599627370496)"
    using fl_eval [of "target_slope limits_03 - fl (fl (tc3 tie_hot_curr - tc3 tie_last) / fl
          (fl (real_of_int (time tie_hot_curr - time tie_last) / 1000000) / 60))" 52] unfolding
          e_slope
    by (simp add: v_tc3_c v_tc3_l v_target_slope_L round_half_even_def)
  have f6: "fl 0.20 = 3602879701896397 / 18014398509481984"
    using fl_eval [of "0.20" 55] 
    by (simp add: round_half_even_def)
  have f7: "fl (fl (target_slope limits_03 - fl (fl (tc3 tie_hot_curr - tc3 tie_last) / fl (fl
        (real_of_int (time tie_hot_curr - time tie_last) / 1000000) / 60))) / fl 0.20) = -
        (8866461766385663 / 1125899906842624)"
    using fl_eval [of "fl (target_slope limits_03 - fl (fl (tc3 tie_hot_curr - tc3 tie_last) /
          fl (fl (real_of_int (time tie_hot_curr - time tie_last) / 1000000) / 60))) / fl 0.20"
          50] unfolding f5 f6
    by (simp add: v_tc3_c v_tc3_l v_target_slope_L round_half_even_def)
  have e_base: "fl (h2 tie_hot_curr + fl (fl (target_slope limits_03 - fl (fl (tc3 tie_hot_curr
        - tc3 tie_last) / fl (fl (real_of_int (time tie_hot_curr - time tie_last) / 1000000) /
        60))) / fl 0.20)) = 2392537302040577 / 1125899906842624"
    using fl_eval [of "h2 tie_hot_curr + fl (fl (target_slope limits_03 - fl (fl (tc3
          tie_hot_curr - tc3 tie_last) / fl (fl (real_of_int (time tie_hot_curr - time
          tie_last) / 1000000) / 60))) / fl 0.20)" 51] unfolding f7
    by (simp add: v_h2_c v_tc3_c v_tc3_l v_target_slope_L round_half_even_def)
  have f9: "fl 0.95 = 4278419646001971 / 4503599627370496"
    using fl_eval [of "0.95" 53] 
    by (simp add: round_half_even_def)
  have e_cap: "fl (h2 tie_hot_curr * fl 0.95) = 19 / 2"
    using fl_eval [of "h2 tie_hot_curr * fl 0.95" 49] unfolding f9
    by (simp add: v_h2_c round_half_even_def)
  have e_ab: "fl (tc1 tie_hot_curr - tc3 tie_hot_curr) = 297 / 2"
    using fl_eval [of "tc1 tie_hot_curr - tc3 tie_hot_curr" 45] 
    by (simp add: v_tc3_c v_tc1_c round_half_even_def)
  have e_st: "fl (tc3 tie_hot_curr - t2 tie_hot_curr) = - (237 / 2)"
    using fl_eval [of "tc3 tie_hot_curr - t2 tie_hot_curr" 46] 
    by (simp add: v_t2_c v_tc3_c round_half_even_def)
  have e_a50: "fl (air tie_hot_curr + 50) = 850"
    using fl_eval [of "air tie_hot_curr + 50" 43] 
    by (simp add: v_air_c round_half_even_def)
  have e_a150: "fl (fl (air tie_hot_curr + 50) + 100) = 950"
    using fl_eval [of "fl (air tie_hot_curr + 50) + 100" 43] unfolding e_a50
    by (simp add: v_air_c round_half_even_def)
  have e_a100: "fl (air tie_hot_curr + 100) = 900"
    using fl_eval [of "air tie_hot_curr + 100" 43] 
    by (simp add: v_air_c round_half_even_def)
  show "h2 tie_hot_curr = 10"
    and "air tie_hot_curr = 800"
    and "fl (tc1 tie_hot_curr - tc3 tie_hot_curr) = 297 / 2"
    and "fl (tc3 tie_hot_curr - t2 tie_hot_curr) = - (237 / 2)"
    and "fl (h2 tie_hot_curr + fl (fl (target_slope limits_03 - fl (fl (tc3 tie_hot_curr - tc3
          tie_last) / fl (fl (real_of_int (time tie_hot_curr - time tie_last) / 1000000) /
          60))) / fl 0.20)) = 2392537302040577 / 1125899906842624"
    and "fl (h2 tie_hot_curr * fl 0.95) = 19 / 2"
    and "fl (air tie_hot_curr + 50) = 850"
    and "fl (fl (air tie_hot_curr + 50) + 100) = 950"
    and "fl (air tie_hot_curr + 100) = 900"
    and "fl (fl (tc3 tie_hot_curr - tc3 tie_last) / fl (fl (real_of_int (time tie_hot_curr -
          time tie_last) / 1000000) / 60)) = 15 / 8"
    by (fact v_h2_c v_air_c e_ab e_st e_base e_cap e_a50 e_a150 e_a100 e_slope)+
qed

lemma tiehot_eval:
  shows "next_h2 (calculate_next_step_f64 limits_03 tie_hot_curr tie_last) = fl 2.13"
    and "next_air (calculate_next_step_f64 limits_03 tie_hot_curr tie_last) = 900"
    and "msg (calculate_next_step_f64 limits_03 tie_hot_curr tie_last) = StackProtection"
    and "a_slope (calculate_next_step_f64 limits_03 tie_hot_curr tie_last) = 15 / 8"
proof -
  have t: "time tie_last < time tie_hot_curr"
    by (simp add: tie_hot_curr_def tie_last_def)
  show "next_h2 (calculate_next_step_f64 limits_03 tie_hot_curr tie_last) = fl 2.13"
    unfolding f64_next_h2 [OF t] tiehot_parts(3) tiehot_parts(5) tiehot_parts(6)
    by (simp add: limits_03_def float_round_def py_round_def round_half_even_def)
  show "next_air (calculate_next_step_f64 limits_03 tie_hot_curr tie_last) = 900"
    using fl_eval [of "900" 43]
    unfolding f64_next_air [OF t] tiehot_parts(3) tiehot_parts(4) tiehot_parts(8)
          tiehot_parts(9)
    unfolding tiehot_parts(7)
    unfolding tiehot_parts(2)
    by (simp add: limits_03_def float_round_def py_round_def round_half_even_def)
  show "msg (calculate_next_step_f64 limits_03 tie_hot_curr tie_last) = StackProtection"
    unfolding f64_msg [OF t] tiehot_parts(3) tiehot_parts(4)
    by (simp add: limits_03_def)
  show "a_slope (calculate_next_step_f64 limits_03 tie_hot_curr tie_last) = 15 / 8"
    unfolding f64_a_slope [OF t] tiehot_parts(10) ..
qed

lemma example_f64_parts:
  shows "h2 example_curr = 10"
    and "air example_curr = 800"
    and "fl (tc1 example_curr - tc3 example_curr) = 319 / 2"
    and "fl (tc3 example_curr - t2 example_curr) = - (39 / 2)"
    and "fl (h2 example_curr + fl (fl (target_slope limits_07 - fl (fl (tc3 example_curr - tc3
          example_last) / fl (fl (real_of_int (time example_curr - time example_last) /
          1000000) / 60))) / fl 0.20)) = 11"
    and "fl (h2 example_curr * fl 0.95) = 19 / 2"
    and "fl (air example_curr + 50) = 850"
    and "fl (fl (air example_curr + 50) + 100) = 950"
    and "fl (air example_curr + 100) = 900"
    and "fl (fl (tc3 example_curr - tc3 example_last) / fl (fl (real_of_int (time example_curr
          - time example_last) / 1000000) / 60)) = 1 / 2"
proof -
  have v_h2_c: "h2 example_curr = 10"
    by (simp add: example_curr_def)
  have v_air_c: "air example_curr = 800"
    by (simp add: example_curr_def)
  have v_t2_c: "t2 example_curr = 300"
    by (simp add: example_curr_def)
  have v_tc3_c: "tc3 example_curr = 561 / 2"
    by (simp add: example_curr_def)
  have v_tc1_c: "tc1 example_curr = 440"
    by (simp add: example_curr_def)
  have v_tc3_l: "tc3 example_last = 280"
    by (simp add: example_last_def)
  have v_target_slope_L: "target_slope limits_07 = 3152519739159347 / 4503599627370496"
    using fl_eval [of "0.7" 53]
    by (simp add: limits_07_def round_half_even_def)
  have v_us: "real_of_int (time example_curr - time example_last) = 60000000"
    by (simp add: example_curr_def example_last_def)
  have f1: "fl (real_of_int (time example_curr - time example_last) / 1000000) = 60"
    using fl_eval [of "real_of_int (time example_curr - time example_last) / 1000000" 47]
          unfolding v_us
    by (simp add: round_half_even_def)
  have e_dt: "fl (fl (real_of_int (time example_curr - time example_last) / 1000000) / 60) = 1"
    using fl_eval [of "fl (real_of_int (time example_curr - time example_last) / 1000000) / 60"
          52] unfolding f1
    by (simp add: round_half_even_def)
  have f3: "fl (tc3 example_curr - tc3 example_last) = 1 / 2"
    using fl_eval [of "tc3 example_curr - tc3 example_last" 53] 
    by (simp add: v_tc3_c v_tc3_l round_half_even_def)
  have e_slope: "fl (fl (tc3 example_curr - tc3 example_last) / fl (fl (real_of_int (time
        example_curr - time example_last) / 1000000) / 60)) = 1 / 2"
    using fl_eval [of "fl (tc3 example_curr - tc3 example_last) / fl (fl (real_of_int (time
          example_curr - time example_last) / 1000000) / 60)" 53] unfolding f3 e_dt
    by (simp add: v_tc3_c v_tc3_l round_half_even_def)
  have f5: "fl (target_slope limits_07 - fl (fl (tc3 example_curr - tc3 example_last) / fl (fl
        (real_of_int (time example_curr - time example_last) / 1000000) / 60))) =
        900719925474099 / 4503599627370496"
    using fl_eval [of "target_slope limits_07 - fl (fl (tc3 example_curr - tc3 example_last) /
          fl (fl (real_of_int (time example_curr - time example_last) / 1000000) / 60))" 55]
          unfolding e_slope
    by (simp add: v_tc3_c v_tc3_l v_target_slope_L round_half_even_def)
  have f6: "fl 0.20 = 3602879701896397 / 18014398509481984"
    using fl_eval [of "0.20" 55] 
    by (simp add: round_half_even_def)
  have f7: "fl (fl (target_slope limits_07 - fl (fl (tc3 example_curr - tc3 example_last) / fl
        (fl (real_of_int (time example_curr - time example_last) / 1000000) / 60))) / fl 0.20)
        = 4503599627370495 / 4503599627370496"
    using fl_eval [of "fl (target_slope limits_07 - fl (fl (tc3 example_curr - tc3
          example_last) / fl (fl (real_of_int (time example_curr - time example_last) /
          1000000) / 60))) / fl 0.20" 53] unfolding f5 f6
    by (simp add: v_tc3_c v_tc3_l v_target_slope_L round_half_even_def)
  have e_base: "fl (h2 example_curr + fl (fl (target_slope limits_07 - fl (fl (tc3 example_curr
        - tc3 example_last) / fl (fl (real_of_int (time example_curr - time example_last) /
        1000000) / 60))) / fl 0.20)) = 11"
    using fl_eval [of "h2 example_curr + fl (fl (target_slope limits_07 - fl (fl (tc3
          example_curr - tc3 example_last) / fl (fl (real_of_int (time example_curr - time
          example_last) / 1000000) / 60))) / fl 0.20)" 49] unfolding f7
    by (simp add: v_h2_c v_tc3_c v_tc3_l v_target_slope_L round_half_even_def)
  have f9: "fl 0.95 = 4278419646001971 / 4503599627370496"
    using fl_eval [of "0.95" 53] 
    by (simp add: round_half_even_def)
  have e_cap: "fl (h2 example_curr * fl 0.95) = 19 / 2"
    using fl_eval [of "h2 example_curr * fl 0.95" 49] unfolding f9
    by (simp add: v_h2_c round_half_even_def)
  have e_ab: "fl (tc1 example_curr - tc3 example_curr) = 319 / 2"
    using fl_eval [of "tc1 example_curr - tc3 example_curr" 45] 
    by (simp add: v_tc3_c v_tc1_c round_half_even_def)
  have e_st: "fl (tc3 example_curr - t2 example_curr) = - (39 / 2)"
    using fl_eval [of "tc3 example_curr - t2 example_curr" 48] 
    by (simp add: v_t2_c v_tc3_c round_half_even_def)
  have e_a50: "fl (air example_curr + 50) = 850"
    using fl_eval [of "air example_curr + 50" 43] 
    by (simp add: v_air_c round_half_even_def)
  have e_a150: "fl (fl (air example_curr + 50) + 100) = 950"
    using fl_eval [of "fl (air example_curr + 50) + 100" 43] unfolding e_a50
    by (simp add: v_air_c round_half_even_def)
  have e_a100: "fl (air example_curr + 100) = 900"
    using fl_eval [of "air example_curr + 100" 43] 
    by (simp add: v_air_c round_half_even_def)
  show "h2 example_curr = 10"
    and "air example_curr = 800"
    and "fl (tc1 example_curr - tc3 example_curr) = 319 / 2"
    and "fl (tc3 example_curr - t2 example_curr) = - (39 / 2)"
    and "fl (h2 example_curr + fl (fl (target_slope limits_07 - fl (fl (tc3 example_curr - tc3
          example_last) / fl (fl (real_of_int (time example_curr - time example_last) /
          1000000) / 60))) / fl 0.20)) = 11"
    and "fl (h2 example_curr * fl 0.95) = 19 / 2"
    and "fl (air example_curr + 50) = 850"
    and "fl (fl (air example_curr + 50) + 100) = 950"
    and "fl (air example_curr + 100) = 900"
    and "fl (fl (tc3 example_curr - tc3 example_last) / fl (fl (real_of_int (time example_curr
          - time example_last) / 1000000) / 60)) = 1 / 2"
    by (fact v_h2_c v_air_c e_ab e_st e_base e_cap e_a50 e_a150 e_a100 e_slope)+
qed

lemma example_f64_eval:
  shows "next_h2 (calculate_next_step_f64 limits_07 example_curr example_last) = 11"
    and "next_air (calculate_next_step_f64 limits_07 example_curr example_last) = 800"
    and "msg (calculate_next_step_f64 limits_07 example_curr example_last) = Stable"
    and "a_slope (calculate_next_step_f64 limits_07 example_curr example_last) = 1 / 2"
proof -
  have t: "time example_last < time example_curr"
    by (simp add: example_curr_def example_last_def)
  show "next_h2 (calculate_next_step_f64 limits_07 example_curr example_last) = 11"
    using fl_eval [of "11" 49]
    unfolding f64_next_h2 [OF t] example_f64_parts(3) example_f64_parts(5) example_f64_parts(6)
    by (simp add: limits_07_def float_round_def py_round_def round_half_even_def)
  show "next_air (calculate_next_step_f64 limits_07 example_curr example_last) = 800"
    using fl_eval [of "800" 43]
    unfolding f64_next_air [OF t] example_f64_parts(3) example_f64_parts(4)
          example_f64_parts(8) example_f64_parts(9)
    unfolding example_f64_parts(7)
    unfolding example_f64_parts(2)
    by (simp add: limits_07_def float_round_def py_round_def round_half_even_def)
  show "msg (calculate_next_step_f64 limits_07 example_curr example_last) = Stable"
    unfolding f64_msg [OF t] example_f64_parts(3) example_f64_parts(4)
    by (simp add: limits_07_def)
  show "a_slope (calculate_next_step_f64 limits_07 example_curr example_last) = 1 / 2"
    unfolding f64_a_slope [OF t] example_f64_parts(10) ..
qed

text \<open>
  At the input 48 seconds apart the exact reading meets the tie 2.125 from below and
  returns 2.12, where the double arithmetic returns the double nearest 2.13.
\<close>

lemma exact_reading_tie:
  "next_h2 (calculate_next_step limits_03 tie_curr tie_last) = 2.12"
proof -
  have v: "target_slope limits_03 = 5404319552844595 / 18014398509481984"
    using fl_eval [of "0.3" 54] by (simp add: limits_03_def round_half_even_def)
  have t: "time tie_last < time tie_curr"
    by (simp add: tie_curr_def tie_last_def)
  show ?thesis
    unfolding step_next_h2 [OF t] v elapsed_minutes_tie
    by (simp add: tie_curr_def tie_last_def limits_03_def py_round_def round_half_even_def)
qed

subsection \<open>The deferral on a non-positive time step\<close>

text \<open>
  C4. When the current sample is not later than the previous one, the step returns the
  current hydrogen and air flows unchanged, the waiting status and an observed slope of 0.
\<close>

theorem deferred_on_nonpositive_dt:
  "time curr_e \<le> time last_e \<Longrightarrow>
   calculate_next_step limits_now curr_e last_e =
     \<lparr>next_h2 = h2 curr_e, next_air = air curr_e, msg = Waiting, a_slope = 0\<rparr>"
  by (simp add: calculate_next_step_def elapsed_minutes_nonpos_iff)

theorem deferred_on_nonpositive_dt_witness:
  "time example_last \<le> time example_last \<and>
   calculate_next_step example_limits example_last example_last =
     \<lparr>next_h2 = 10, next_air = 800, msg = Waiting, a_slope = 0\<rparr>"
  using deferred_on_nonpositive_dt [of example_last example_last example_limits]
  by (simp add: example_last_def)

subsection \<open>The worked example\<close>

text \<open>
  C1, as stated: on the example inputs the step would return a hydrogen setpoint of 9.5, an
  air setpoint of 850.0, the afterburner status and a slope of 0.5. It does not: the
  afterburner difference is \<open>440 - 280.5 = 159.5\<close>, which is not above \<open>170 - 10 = 160\<close>,
  so the afterburner rule stays silent.
\<close>

theorem example_step_counterexample:
  "calculate_next_step example_limits example_curr example_last \<noteq>
     \<lparr>next_h2 = 9.5, next_air = 850, msg = AfterburnerProtection, a_slope = 0.5\<rparr>"
  by (simp add: step_eval example_limits_def example_curr_def example_last_def)

text \<open>
  C1, amended: on the example inputs the step returns a hydrogen setpoint of 11.0, an air
  setpoint of 800.0, the stable status and an observed slope of 0.5.
\<close>

theorem example_step_value:
  "calculate_next_step example_limits example_curr example_last =
     \<lparr>next_h2 = 11, next_air = 800, msg = Stable, a_slope = 0.5\<rparr>"
  by (simp add: step_eval example_limits_def example_curr_def example_last_def)

subsection \<open>The afterburner rule\<close>

text \<open>
  C2, as stated: with the afterburner difference five below its limit, the hydrogen
  setpoint is at most 95 percent of the current flow and the air setpoint at least the
  current flow plus 50. Both bounds are on the values before the last rounding. With a
  hydrogen flow of 35.5 the cap is 33.725 and the setpoint returned is the double nearest
  33.73; with an air flow of \<open>fl 500.55\<close> the sum is just below 550.55 and the
        setpoint
  returned is 550.5. The bounds fail whether the product and the sum are read exactly or
  in double arithmetic.
\<close>

theorem afterburner_trigger_f64_counterexample:
  "time cap_last < time cap_curr \<and>
   fl (tc1 cap_curr - tc3 cap_curr) = real_of_int (max_ab_dt limits_07) - 5 \<and>
   h2 cap_curr * 0.95 < next_h2 (calculate_next_step_f64 limits_07 cap_curr cap_last) \<and>
   fl (h2 cap_curr * fl 0.95) < next_h2 (calculate_next_step_f64 limits_07 cap_curr cap_last)
         \<and>
   next_air (calculate_next_step_f64 limits_07 cap_curr cap_last) < air cap_curr + 50 \<and>
   next_air (calculate_next_step_f64 limits_07 cap_curr cap_last) < fl (air cap_curr + 50)"
proof -
  have t: "time cap_last < time cap_curr"
    by (simp add: cap_curr_def cap_last_def)
  have d: "fl (tc1 cap_curr - tc3 cap_curr) = real_of_int (max_ab_dt limits_07) - 5"
    unfolding cap_parts(3) by (simp add: limits_07_def)
  have v: "fl 33.73 = 4747075482225213 / 140737488355328"
    using fl_eval [of "33.73" 47] by (simp add: round_half_even_def)
  have h1: "h2 cap_curr * 0.95 < next_h2 (calculate_next_step_f64 limits_07 cap_curr cap_last)"
    unfolding cap_eval(1) cap_parts(1) v by simp
  have h2: "fl (h2 cap_curr * fl 0.95) < next_h2 (calculate_next_step_f64 limits_07 cap_curr
        cap_last)"
    unfolding cap_eval(1) cap_parts(6) v by simp
  have a1: "next_air (calculate_next_step_f64 limits_07 cap_curr cap_last) < air cap_curr + 50"
    unfolding cap_eval(2) cap_parts(2) by simp
  have a2: "next_air (calculate_next_step_f64 limits_07 cap_curr cap_last) < fl (air cap_curr +
        50)"
    unfolding cap_eval(2) cap_parts(7) by simp
  from t d h1 h2 a1 a2 show ?thesis
    by (intro conjI)
qed

text \<open>
  C2, amended: when time has passed and the afterburner difference computed by the step is
  five below its limit, the hydrogen setpoint is at most the rounding to two decimals of
  the product \<open>h2 * 0.95\<close>, and the air setpoint is at least the rounding to one
        decimal of
  the sum \<open>air + 50\<close>, the product, the sum and the roundings being those of the
        double
  arithmetic of the step.
\<close>

theorem afterburner_trigger_f64:
  assumes "time l < time c"
    and "fl (tc1 c - tc3 c) = real_of_int (max_ab_dt L) - 5"
  shows "next_h2 (calculate_next_step_f64 L c l) \<le> float_round (fl (h2 c * fl 0.95)) 2
        \<and>
         float_round (fl (air c + 50)) 1 \<le> next_air (calculate_next_step_f64 L c l)"
proof -
  from assms(2) have fires: "fl (tc1 c - tc3 c) > real_of_int (max_ab_dt L - 10)"
    by simp
  have fuel: "next_h2 (calculate_next_step_f64 L c l) \<le> float_round (fl (h2 c * fl 0.95)) 2"
    unfolding f64_next_h2 [OF assms(1)] if_P [OF fires]
    by (intro float_round_mono min.cobounded2)
  have a: "fl (fl (air c + 50)) = fl (air c + 50)"
    by (rule fl_idem)
  have b: "fl (fl (fl (air c + 50) + 100)) = fl (fl (air c + 50) + 100)"
    by (rule fl_idem)
  have ab: "fl (air c + 50) \<le> fl (fl (air c + 50) + 100)"
    using a by (rule fl_add_nonneg_ge) simp
  have air: "float_round (fl (air c + 50)) 1 \<le> next_air (calculate_next_step_f64 L c l)"
    unfolding f64_next_air [OF assms(1)] if_P [OF fires]
    using floored_ge [OF a b ab, of 1 "min_air_flow L"]
          floored_ge [OF a a order_refl, of 1 "min_air_flow L"]
    by (simp split: if_splits)
  from fuel air show ?thesis ..
qed

theorem afterburner_trigger_f64_witness:
  "time cap_last < time cap_curr \<and>
   fl (tc1 cap_curr - tc3 cap_curr) = real_of_int (max_ab_dt limits_07) - 5 \<and>
   next_h2 (calculate_next_step_f64 limits_07 cap_curr cap_last)
     \<le> float_round (fl (h2 cap_curr * fl 0.95)) 2 \<and>
   float_round (fl (air cap_curr + 50)) 1
     \<le> next_air (calculate_next_step_f64 limits_07 cap_curr cap_last) \<and>
   float_round (fl (h2 cap_curr * fl 0.95)) 2 = fl 33.73 \<and>
   float_round (fl (air cap_curr + 50)) 1 = 550.5"
proof -
  have t: "time cap_last < time cap_curr"
    by (simp add: cap_curr_def cap_last_def)
  have d: "fl (tc1 cap_curr - tc3 cap_curr) = real_of_int (max_ab_dt limits_07) - 5"
    unfolding cap_parts(3) by (simp add: limits_07_def)
  note bound = afterburner_trigger_f64 [OF t d]
  have r2: "float_round (fl (h2 cap_curr * fl 0.95)) 2 = fl 33.73"
    unfolding cap_parts(6)
    by (simp add: float_round_def py_round_def round_half_even_def)
  have r1: "float_round (fl (air cap_curr + 50)) 1 = 550.5"
    using fl_eval [of "550.5" 43]
    unfolding cap_parts(7)
    by (simp add: float_round_def py_round_def round_half_even_def)
  from t d bound r2 r1 show ?thesis
    by (intro conjI) simp_all
qed

subsection \<open>The floors\<close>




subsection \<open>Both rules at once\<close>

text \<open>
  C6, as stated: when both rules fire, the air setpoint is at least the current air flow
  plus 150. The returned value is rounded to one decimal: with an air flow of
  \<open>fl 500.55\<close> the two additions give a double just below 650.55 and the step
        returns
  650.5.
\<close>

theorem both_rules_f64_counterexample:
  "time cap_last < time cap_hot_curr \<and>
   real_of_int (max_ab_dt limits_07 - 10) < fl (tc1 cap_hot_curr - tc3 cap_hot_curr) \<and>
   real_of_int (max_stack_dt limits_07 - 15) < \<bar>fl (tc3 cap_hot_curr - t2
         cap_hot_curr)\<bar> \<and>
   next_air (calculate_next_step_f64 limits_07 cap_hot_curr cap_last) < air cap_hot_curr + 150
         \<and>
   next_air (calculate_next_step_f64 limits_07 cap_hot_curr cap_last)
     < fl (fl (air cap_hot_curr + 50) + 100)"
proof -
  have t: "time cap_last < time cap_hot_curr"
    by (simp add: cap_hot_curr_def cap_last_def)
  have a: "real_of_int (max_ab_dt limits_07 - 10) < fl (tc1 cap_hot_curr - tc3 cap_hot_curr)"
    unfolding both_parts(3) by (simp add: limits_07_def)
  have s: "real_of_int (max_stack_dt limits_07 - 15)
             < \<bar>fl (tc3 cap_hot_curr - t2 cap_hot_curr)\<bar>"
    unfolding both_parts(4) by (simp add: limits_07_def)
  have n1: "next_air (calculate_next_step_f64 limits_07 cap_hot_curr cap_last) < air
        cap_hot_curr + 150"
    unfolding both_eval(2) both_parts(2) by simp
  have n2: "next_air (calculate_next_step_f64 limits_07 cap_hot_curr cap_last)
              < fl (fl (air cap_hot_curr + 50) + 100)"
    unfolding both_eval(2) both_parts(8) by simp
  from t a s n1 n2 show ?thesis
    by (intro conjI)
qed

text \<open>
  C6, amended: when time has passed and both rules fire, the air setpoint is at least the
  rounding to one decimal of \<open>(air + 50) + 100\<close>, the two sums and the rounding
        being
  those of the double arithmetic of the step, and the status is the stack alarm.
\<close>

theorem both_rules_f64:
  assumes "time l < time c"
    and "fl (tc1 c - tc3 c) > real_of_int (max_ab_dt L - 10)"
    and "\<bar>fl (tc3 c - t2 c)\<bar> > real_of_int (max_stack_dt L - 15)"
  shows "float_round (fl (fl (air c + 50) + 100)) 1
           \<le> next_air (calculate_next_step_f64 L c l) \<and>
         msg (calculate_next_step_f64 L c l) = StackProtection"
proof -
  have b: "fl (fl (fl (air c + 50) + 100)) = fl (fl (air c + 50) + 100)"
    by (rule fl_idem)
  have "float_round (fl (fl (air c + 50) + 100)) 1
          \<le> next_air (calculate_next_step_f64 L c l)"
    unfolding f64_next_air [OF assms(1)] if_P [OF assms(2)] if_P [OF assms(3)]
    by (rule floored_ge [OF b b order_refl])
  moreover have "msg (calculate_next_step_f64 L c l) = StackProtection"
    using assms(3) by (simp add: f64_msg [OF assms(1)])
  ultimately show ?thesis ..
qed

theorem both_rules_f64_witness:
  "time cap_last < time cap_hot_curr \<and>
   real_of_int (max_ab_dt limits_07 - 10) < fl (tc1 cap_hot_curr - tc3 cap_hot_curr) \<and>
   real_of_int (max_stack_dt limits_07 - 15) < \<bar>fl (tc3 cap_hot_curr - t2
         cap_hot_curr)\<bar> \<and>
   float_round (fl (fl (air cap_hot_curr + 50) + 100)) 1
     \<le> next_air (calculate_next_step_f64 limits_07 cap_hot_curr cap_last) \<and>
   msg (calculate_next_step_f64 limits_07 cap_hot_curr cap_last) = StackProtection \<and>
   float_round (fl (fl (air cap_hot_curr + 50) + 100)) 1 = 650.5"
proof -
  have t: "time cap_last < time cap_hot_curr"
    by (simp add: cap_hot_curr_def cap_last_def)
  have a: "real_of_int (max_ab_dt limits_07 - 10) < fl (tc1 cap_hot_curr - tc3 cap_hot_curr)"
    unfolding both_parts(3) by (simp add: limits_07_def)
  have s: "real_of_int (max_stack_dt limits_07 - 15)
             < \<bar>fl (tc3 cap_hot_curr - t2 cap_hot_curr)\<bar>"
    unfolding both_parts(4) by (simp add: limits_07_def)
  note bound = both_rules_f64 [OF t a s]
  have r: "float_round (fl (fl (air cap_hot_curr + 50) + 100)) 1 = 650.5"
    using fl_eval [of "650.5" 43]
    unfolding both_parts(8)
    by (simp add: float_round_def py_round_def round_half_even_def)
  from t a s bound r show ?thesis
    by (intro conjI) simp_all
qed

subsection \<open>The fuel law\<close>

text \<open>
  C7. When time has passed, the observed slope returned is the difference of the two
  cathode-outlet temperatures divided by the elapsed minutes, the minutes being the
  microseconds between the samples divided by \<open>10\<^sup>6\<close> and then by 60; and the
        hydrogen
  setpoint is built on \<open>max 0 (h2 + (target_slope - slope) / 0.20)\<close>: that value
        rounded to
  two decimals when the afterburner rule is silent, and capped by \<open>h2 * 0.95\<close>
        before the
  rounding when it fires. Every operation is the one of the double arithmetic of the step.
\<close>

theorem fuel_law_f64:
  assumes "time l < time c"
  shows "a_slope (calculate_next_step_f64 L c l) =
           fl (fl (tc3 c - tc3 l) / fl (fl (real_of_int (time c - time l) / 1000000) / 60))
                 \<and>
         next_h2 (calculate_next_step_f64 L c l) =
           float_round
             (if fl (tc1 c - tc3 c) > real_of_int (max_ab_dt L - 10)
              then min (max 0 (fl (h2 c + fl (fl (target_slope L
                          - fl (fl (tc3 c - tc3 l)
                                / fl (fl (real_of_int (time c - time l) / 1000000) / 60)))
                          / fl 0.20))))
                       (fl (h2 c * fl 0.95))
              else max 0 (fl (h2 c + fl (fl (target_slope L
                          - fl (fl (tc3 c - tc3 l)
                                / fl (fl (real_of_int (time c - time l) / 1000000) / 60)))
                          / fl 0.20)))) 2"
  by (simp only: f64_a_slope [OF assms] f64_next_h2 [OF assms])

text \<open>
  The law at two inputs: 48 seconds apart with the afterburner rule silent, where the slope
  is \<open>1.5 / 0.8 = 1.875\<close> and the setpoint is the double nearest 2.13; and one
        minute apart
  with the rule firing, where the cap 33.725 gives the double nearest 33.73.
\<close>

theorem fuel_law_f64_witness:
  "time tie_last < time tie_curr \<and>
   a_slope (calculate_next_step_f64 limits_03 tie_curr tie_last) = 1.875 \<and>
   next_h2 (calculate_next_step_f64 limits_03 tie_curr tie_last) = fl 2.13 \<and>
   time cap_last < time cap_curr \<and>
   a_slope (calculate_next_step_f64 limits_07 cap_curr cap_last) = 12314530231091 /
         17592186044416 \<and>
   next_h2 (calculate_next_step_f64 limits_07 cap_curr cap_last) = fl 33.73"
proof -
  have t1: "time tie_last < time tie_curr"
    by (simp add: tie_curr_def tie_last_def)
  have t2: "time cap_last < time cap_curr"
    by (simp add: cap_curr_def cap_last_def)
  have tie: "a_slope (calculate_next_step_f64 limits_03 tie_curr tie_last) = 1.875 \<and>
             next_h2 (calculate_next_step_f64 limits_03 tie_curr tie_last) = fl 2.13"
    using fuel_law_f64 [OF t1, of limits_03]
    unfolding tie_parts(3) tie_parts(5) tie_parts(6)
    unfolding tie_parts(10)
    by (simp add: limits_03_def float_round_def py_round_def round_half_even_def)
  have cap: "a_slope (calculate_next_step_f64 limits_07 cap_curr cap_last) = 12314530231091 /
        17592186044416 \<and>
             next_h2 (calculate_next_step_f64 limits_07 cap_curr cap_last) = fl 33.73"
    using fuel_law_f64 [OF t2, of limits_07]
    unfolding cap_parts(3) cap_parts(5) cap_parts(6)
    unfolding cap_parts(10)
    by (simp add: limits_07_def float_round_def py_round_def round_half_even_def)
  from t1 tie t2 cap show ?thesis
    by (intro conjI) simp_all
qed

text \<open>
  C9. When time has passed and the afterburner rule is silent, the hydrogen setpoint is
  \<open>max 0 (h2 + (target_slope - slope) / 0.20)\<close> rounded to two decimals, in the
        double
  arithmetic of the step, whether or not the stack rule fires: nothing is assumed about
  the stack difference.
\<close>

theorem stack_rule_leaves_fuel_f64:
  assumes "time l < time c"
    and "fl (tc1 c - tc3 c) \<le> real_of_int (max_ab_dt L - 10)"
  shows "next_h2 (calculate_next_step_f64 L c l) =
           float_round (max 0 (fl (h2 c + fl (fl (target_slope L
                          - fl (fl (tc3 c - tc3 l)
                                / fl (fl (real_of_int (time c - time l) / 1000000) / 60)))
                          / fl 0.20)))) 2"
  using assms(2) by (simp add: f64_next_h2 [OF assms(1)])

text \<open>The same fuel setpoint with the stack rule firing and with the stack rule
      silent.\<close>

theorem stack_rule_leaves_fuel_f64_witness:
  "time tie_last < time tie_hot_curr \<and>
   fl (tc1 tie_hot_curr - tc3 tie_hot_curr) \<le> real_of_int (max_ab_dt limits_03 - 10) \<and>
   msg (calculate_next_step_f64 limits_03 tie_hot_curr tie_last) = StackProtection \<and>
   next_h2 (calculate_next_step_f64 limits_03 tie_hot_curr tie_last) = fl 2.13 \<and>
   time tie_last < time tie_curr \<and>
   fl (tc1 tie_curr - tc3 tie_curr) \<le> real_of_int (max_ab_dt limits_03 - 10) \<and>
   msg (calculate_next_step_f64 limits_03 tie_curr tie_last) = Stable \<and>
   next_h2 (calculate_next_step_f64 limits_03 tie_curr tie_last) = fl 2.13"
proof -
  have t1: "time tie_last < time tie_hot_curr"
    by (simp add: tie_hot_curr_def tie_last_def)
  have q1: "fl (tc1 tie_hot_curr - tc3 tie_hot_curr) \<le> real_of_int (max_ab_dt limits_03 -
        10)"
    unfolding tiehot_parts(3) by (simp add: limits_03_def)
  have h1: "next_h2 (calculate_next_step_f64 limits_03 tie_hot_curr tie_last) = fl 2.13"
    using stack_rule_leaves_fuel_f64 [OF t1 q1]
    unfolding tiehot_parts(5)
    by (simp add: float_round_def py_round_def round_half_even_def)
  have t2: "time tie_last < time tie_curr"
    by (simp add: tie_curr_def tie_last_def)
  have q2: "fl (tc1 tie_curr - tc3 tie_curr) \<le> real_of_int (max_ab_dt limits_03 - 10)"
    unfolding tie_parts(3) by (simp add: limits_03_def)
  have h2: "next_h2 (calculate_next_step_f64 limits_03 tie_curr tie_last) = fl 2.13"
    using stack_rule_leaves_fuel_f64 [OF t2 q2]
    unfolding tie_parts(5)
    by (simp add: float_round_def py_round_def round_half_even_def)
  from t1 q1 tiehot_eval(3) h1 t2 q2 tie_eval(3) h2 show ?thesis
    by (intro conjI)
qed

subsection \<open>Air is never reduced\<close>



subsection \<open>Order and sign in double arithmetic\<close>

text \<open>
  The floors and the air bound above do not depend on the reading of the arithmetic: they
  hold of the step in double arithmetic as well, for a current air flow that is a binary64
  number.
\<close>

lemma f64_floors:
  assumes "0 \<le> h2 c" and "fl (air c) = air c"
  shows "0 \<le> next_h2 (calculate_next_step_f64 L c l) \<and>
         (time l < time c \<longrightarrow>
            real_of_int (min_air_flow L) \<le> next_air (calculate_next_step_f64 L c l))"
proof (cases "time l < time c")
  case True
  have "0 \<le> fl 0.95"
    by (rule fl_nonneg) simp
  with assms(1) have "0 \<le> h2 c * fl 0.95"
    by (rule mult_nonneg_nonneg)
  then have "0 \<le> fl (h2 c * fl 0.95)"
    by (rule fl_nonneg)
  then have fuel: "0 \<le> next_h2 (calculate_next_step_f64 L c l)"
    unfolding f64_next_h2 [OF True]
    by (intro float_round_nonneg) simp
  have ge: "real_of_int m \<le> (if real_of_int m > b then real_of_int m else float_round b 1)"
    if "fl b = b" for b m
    using float_round_ge_int [OF that, of m 1] by simp
  have "real_of_int (min_air_flow L) \<le> next_air (calculate_next_step_f64 L c l)"
    unfolding f64_next_air [OF True]
    using ge [OF fl_idem, of "min_air_flow L"] ge [OF assms(2), of "min_air_flow L"]
    by (simp split: if_splits)
  with fuel show ?thesis
    by simp
next
  case False
  then have "time c \<le> time l"
    by simp
  then show ?thesis
    using assms(1) False by (simp add: f64_deferred)
qed

lemma f64_air_not_reduced:
  assumes "time l < time c" and "fl (air c) = air c"
  shows "float_round (air c) 1 \<le> next_air (calculate_next_step_f64 L c l)"
proof -
  note a = assms(2)
  have b: "fl (fl (air c + 50)) = fl (air c + 50)"
    and d: "fl (fl (air c + 100)) = fl (air c + 100)"
    and e: "fl (fl (fl (air c + 50) + 100)) = fl (fl (air c + 50) + 100)"
    by (rule fl_idem)+
  have ab: "air c \<le> fl (air c + 50)" and ad: "air c \<le> fl (air c + 100)"
    using a by (intro fl_add_nonneg_ge; simp)+
  have be: "fl (air c + 50) \<le> fl (fl (air c + 50) + 100)"
    using b by (rule fl_add_nonneg_ge) simp
  from ab be have ae: "air c \<le> fl (fl (air c + 50) + 100)"
    by (rule order_trans)
  show ?thesis
    unfolding f64_next_air [OF assms(1)]
    using floored_ge [OF a a order_refl, of 1 "min_air_flow L"]
          floored_ge [OF a b ab, of 1 "min_air_flow L"]
          floored_ge [OF a d ad, of 1 "min_air_flow L"]
          floored_ge [OF a e ae, of 1 "min_air_flow L"]
    by (simp split: if_splits)
qed

subsection \<open>The bounded history\<close>

lemma history_append_short: "length h < 20 \<Longrightarrow> history_append e h = h @ [e]"
  by (simp add: history_append_def Let_def)

lemma history_append_full: "length h = 20 \<Longrightarrow> history_append e h = tl h @ [e]"
  by (cases h) (simp_all add: history_append_def Let_def)

lemma history_append_length: "length h \<le> 20 \<Longrightarrow> length (history_append e h) \<le> 20"
  by (simp add: history_append_def Let_def)

lemma append_all_Cons: "append_all h (e # es) = append_all (history_append e h) es"
  by (simp add: append_all_def)

text \<open>
  From a history within the capacity, a run of submissions leaves the last 20 of all the
  samples seen, in their order.
\<close>

lemma append_all_drop:
  "length h \<le> 20 \<Longrightarrow> append_all h es = drop (length h + length es - 20) (h @ es)"
proof (induction es arbitrary: h)
  case Nil
  then show ?case
    by (simp add: append_all_def)
next
  case (Cons e es)
  have len: "length (history_append e h) \<le> 20"
    using Cons.prems by (rule history_append_length)
  have "append_all h (e # es) = append_all (history_append e h) es"
    by (rule append_all_Cons)
  also have "\<dots> = drop (length (history_append e h) + length es - 20)
                        (history_append e h @ es)"
    by (rule Cons.IH [OF len])
  also have "\<dots> = drop (length h + length (e # es) - 20) (h @ e # es)"
  proof (cases "length h = 20")
    case True
    then obtain x h' where h: "h = x # h'" "length h' = 19"
      by (cases h) auto
    show ?thesis
      unfolding history_append_full [OF True] using h by simp
  next
    case False
    with Cons.prems have short: "length h < 20"
      by simp
    show ?thesis
      by (simp add: history_append_short [OF short])
  qed
  finally show ?case .
qed

text \<open>
  C8. Appending 25 samples to the empty history leaves exactly 20 samples: the input
  without its first five, in the input's order.
\<close>

theorem bounded_history:
  assumes "length es = 25"
  shows "append_all [] es = drop 5 es \<and> length (append_all [] es) = 20"
  using append_all_drop [of "[]" es] assms by simp

theorem bounded_history_witness:
  "length twenty_five_entries = 25 \<and>
   append_all [] twenty_five_entries = map numbered_entry [5..<25] \<and>
   length (append_all [] twenty_five_entries) = 20"
proof -
  have n: "length twenty_five_entries = 25"
    by (simp add: twenty_five_entries_def)
  have d: "drop 5 twenty_five_entries = map numbered_entry [5..<25]"
    by (simp add: twenty_five_entries_def drop_map)
  show ?thesis
    using n bounded_history [OF n] unfolding d by simp
qed

subsection \<open>The boundary-condition log\<close>

text \<open>What the log does record: nothing on the first run and nothing without a change.\<close>

lemma first_run_not_logged: "config_log (sidebar_update now L init_session) = []"
  by (simp add: sidebar_update_def Let_def init_session_def)

lemma unchanged_config_not_logged:
  "config_log (sidebar_update now L (s\<lparr>last_config := current_config L\<rparr>)) = config_log s"
  by (simp add: sidebar_update_def Let_def)

text \<open>A change of the target rate alone puts one row in front of the log.\<close>

lemma target_slope_change_logged:
  "a \<noteq> b \<Longrightarrow>
   config_log (sidebar_update now (L\<lparr>target_slope := b\<rparr>)
                 (s\<lparr>last_config := current_config (L\<lparr>target_slope := a\<rparr>)\<rparr>))
     = \<lparr>log_time = now TargetRate, item = TargetRate, old_value = Some a, new_value = b\<rparr>
         # config_log s"
  by (simp add: sidebar_update_def Let_def current_config_def)

lemma target_slope_example_logged:
  "config_log (sidebar_update now (example_limits\<lparr>target_slope := 0.9\<rparr>)
                 (sidebar_update now example_limits init_session))
     = [\<lparr>log_time = now TargetRate, item = TargetRate, old_value = Some 0.7,
          new_value = 0.9\<rparr>]"
  by (simp add: sidebar_update_def Let_def current_config_def init_session_def
      example_limits_def)

text \<open>
  The minimum air flow is not a key of \<^verbatim>\<open>current_config\<close>, so a change of it alone leaves
  the configuration compared, and with it the log, as it was.
\<close>

lemma min_air_flow_not_in_config:
  "current_config (L\<lparr>min_air_flow := m\<rparr>) = current_config L"
  by (simp add: current_config_def)

text \<open>
  C3. Every one of the four limits that differs from the previous configuration gets one
  row in the log. The code at the input below: the minimum air flow goes from 500 to 600
  after a first run with the example limits, and the log stays empty.
\<close>

theorem min_air_flow_change_not_logged:
  "min_air_flow example_limits = 500 \<and>
   min_air_flow (example_limits\<lparr>min_air_flow := 600\<rparr>) = 600 \<and>
   config_log (sidebar_update now (example_limits\<lparr>min_air_flow := 600\<rparr>)
                 (sidebar_update now example_limits init_session)) = []"
  by (simp add: sidebar_update_def Let_def current_config_def init_session_def
      example_limits_def)

end
